theory Spec2Isabelle
  imports Complex_Main "HOL-Library.AList"
begin

unbundle bit_operations_syntax

section \<open>Python values and errors\<close>

text \<open>
  The exceptions the modelled code can raise. \<open>UnboundLocalError\<close> is what Python
  raises when a function-local variable is read before any assignment to it has run;
  \<open>RecursionError\<close> stands for a recursion that exceeds the interpreter's limit.
\<close>

datatype py_error = KeyError string | UnboundLocalError string | RecursionError

text \<open>Truthiness of an optional string: \<open>None\<close> and the empty string are falsy.\<close>

fun truthy :: "string option \<Rightarrow> bool" where
  "truthy None = False"
| "truthy (Some s) = (s \<noteq> [])"

section \<open>export\_scene.py: the file registry of UrhoScene\<close>

text \<open>
  \<open>UrhoScene.files\<close> is a dict from the string \<open>pathType + name\<close> to a path.
  \<open>PathType\<close> lives in utils.py; its members are strings (they are concatenated with
  the name), so a path type is a parameter of type \<open>string\<close> here.
\<close>

type_synonym files = "string \<rightharpoonup> string"

text \<open>
  \<^verbatim>\<open>
  def AddFile(self, pathType, name, fileUrhoPath):
      if not name: ... return False
      if name in self.files: ... return False
      self.files[pathType+name] = fileUrhoPath
      return True
  \<close>
  The result is the returned flag and the registry after the call.
\<close>

definition AddFile :: "files \<Rightarrow> string \<Rightarrow> string option \<Rightarrow> string \<Rightarrow> bool \<times> files" where
  "AddFile fs pathType name fileUrhoPath =
     (case name of
        None \<Rightarrow> (False, fs)
      | Some n \<Rightarrow>
          if n = [] then (False, fs)
          else if fs n \<noteq> None then (False, fs)
          else (True, fs(pathType @ n \<mapsto> fileUrhoPath)))"

text \<open>
  \<^verbatim>\<open>
  def FindFile(self, pathType, name):
      if name is None: return None
      try: return self.files[pathType+name]
      except KeyError: return None
  \<close>
\<close>

definition FindFile :: "files \<Rightarrow> string \<Rightarrow> string option \<Rightarrow> string option" where
  "FindFile fs pathType name =
     (case name of None \<Rightarrow> None | Some n \<Rightarrow> fs (pathType @ n))"

section \<open>export\_scene.py: hierarchical sorting (Node and Tree)\<close>

text \<open>
  A \<open>Node\<close> object has a name, a list of child nodes and a parent node or \<open>None\<close>.
  \<open>Tree.nodes\<close> holds exactly one \<open>Node\<close> per name, so a reference to a node is
  modelled by the node's name. The dict \<open>Tree.nodes\<close> is an association list in
  insertion order (the order \<open>dict.values()\<close> iterates in): a new key is appended,
  an existing key keeps its place.
\<close>

record node =
  children :: "string list"
  parent :: "string option"

type_synonym tree = "(string \<times> node) list"

definition Node :: node where
  "Node = \<lparr> children = [], parent = None \<rparr>"

text \<open>\<open>if k not in self.nodes: self.nodes[k] = Node(k)\<close>\<close>

definition ensure :: "string \<Rightarrow> tree \<Rightarrow> tree" where
  "ensure k t = (if map_of t k = None then t @ [(k, Node)] else t)"

text \<open>The node stored under a key that is present (\<open>self.nodes[k]\<close>).\<close>

definition node_of :: "tree \<Rightarrow> string \<Rightarrow> node" where
  "node_of t k = (case map_of t k of Some nd \<Rightarrow> nd | None \<Rightarrow> Node)"

text \<open>
  \<^verbatim>\<open>
  def push(self, item):
      name, parent = item
      if name not in self.nodes: self.nodes[name] = Node(name)
      if parent:
          if parent not in self.nodes: self.nodes[parent] = Node(parent)
          if parent != name:
              self.nodes[name].parent = self.nodes[parent]
              self.nodes[parent].children.append(self.nodes[name])
  \<close>
\<close>

definition push :: "string \<times> string option \<Rightarrow> tree \<Rightarrow> tree" where
  "push item t =
     (case item of (name, par) \<Rightarrow>
        let t1 = ensure name t in
        (case par of
           None \<Rightarrow> t1
         | Some p \<Rightarrow>
             if p = [] then t1
             else
               let t2 = ensure p t1 in
               if p \<noteq> name then
                 let t3 = AList.update name ((node_of t2 name)\<lparr>parent := Some p\<rparr>) t2 in
                 AList.update p ((node_of t3 p)\<lparr>children := children (node_of t3 p) @ [name]\<rparr>) t3
               else t2))"

text \<open>Pushing a sequence of items in order into an empty \<open>Tree()\<close>.\<close>

definition push_all :: "(string \<times> string option) list \<Rightarrow> tree" where
  "push_all items = foldl (\<lambda>t item. push item t) [] items"

text \<open>
  \<^verbatim>\<open>
  def to_list(self):            # Node
      names = [self.name]
      for child in self.children:
          names.extend(child.to_list())
      return names
  \<close>
  The recursion follows the child references and need not end when they form a cycle;
  the first argument bounds the recursion depth and \<open>None\<close> means the bound was hit.
\<close>

fun node_to_list :: "nat \<Rightarrow> tree \<Rightarrow> string \<Rightarrow> string list option" where
  "node_to_list 0 t n = None"
| "node_to_list (Suc k) t n =
     (let rs = map (node_to_list k t) (children (node_of t n))
      in if None \<in> set rs then None else Some (n # concat (map the rs)))"

text \<open>
  \<^verbatim>\<open>
  def to_list(self):            # Tree
      names = []
      for node in self.nodes.values():
          if not node.parent:
              names.extend(node.to_list())
      return names
  \<close>
\<close>

definition roots :: "tree \<Rightarrow> string list" where
  "roots t = map fst (filter (\<lambda>(k, nd). parent nd = None) t)"

definition to_list :: "nat \<Rightarrow> tree \<Rightarrow> string list option" where
  "to_list k t =
     (let rs = map (node_to_list k t) (roots t)
      in if None \<in> set rs then None else Some (concat (map the rs)))"

subsection \<open>The order that the sorting is meant to give\<close>

text \<open>
  The notions below are not in the source. They describe a sequence of pushed items and
  a list of names, and are used to state what \<open>to_list\<close> returns.

  The parent links that the items declare: \<open>(p, n)\<close> when some item gives \<open>n\<close> the
  parent \<open>p\<close>, with \<open>p\<close> a non-empty name (\<open>if parent:\<close>) other than \<open>n\<close>
  (\<open>if parent != name:\<close>).
\<close>

definition parent_rel :: "(string \<times> string option) list \<Rightarrow> (string \<times> string) set" where
  "parent_rel items = {(p, n). (n, Some p) \<in> set items \<and> p \<noteq> [] \<and> p \<noteq> n}"

text \<open>The names that occur in the items, as a name or as a non-empty parent name.\<close>

definition mentioned :: "(string \<times> string option) list \<Rightarrow> string set" where
  "mentioned items = fst ` set items \<union> {p. \<exists>n. (n, Some p) \<in> set items \<and> p \<noteq> []}"

text \<open>\<open>a\<close> occurs in \<open>xs\<close> before the first occurrence of \<open>b\<close>.\<close>

definition precedes :: "'a \<Rightarrow> 'a \<Rightarrow> 'a list \<Rightarrow> bool" where
  "precedes a b xs = (b \<in> set xs \<and> a \<in> set (takeWhile (\<lambda>x. x \<noteq> b) xs))"

text \<open>The parent and the children recorded in the node stored under a name.\<close>

definition parent_of :: "tree \<Rightarrow> string \<Rightarrow> string option" where
  "parent_of t n = parent (node_of t n)"

definition kids_of :: "tree \<Rightarrow> string \<Rightarrow> string list" where
  "kids_of t n = children (node_of t n)"

text \<open>An item that sets a parent link when it is pushed.\<close>

definition links :: "string \<times> string option \<Rightarrow> bool" where
  "links item = (case snd item of None \<Rightarrow> False | Some p \<Rightarrow> p \<noteq> [] \<and> p \<noteq> fst item)"

text \<open>
  A tree whose nodes record the relation \<open>R\<close>: the keys are distinct and contain the field
  of \<open>R\<close>, the parent fields and the children lists are those of \<open>R\<close>, no child is
  listed twice, and \<open>R\<close> is finite and has no cycle.
\<close>

definition forest :: "tree \<Rightarrow> (string \<times> string) set \<Rightarrow> bool" where
  "forest t R =
     (finite R \<and> acyclic R \<and> distinct (map fst t) \<and>
      (\<forall>p n. (p, n) \<in> R \<longrightarrow> p \<in> set (map fst t) \<and> n \<in> set (map fst t)) \<and>
      (\<forall>n p. (parent_of t n = Some p) = ((p, n) \<in> R)) \<and>
      (\<forall>p. set (kids_of t p) = {n. (p, n) \<in> R}) \<and>
      (\<forall>p. distinct (kids_of t p)))"

section \<open>export\_scene.py: scene models and their sorting\<close>

type_synonym vec3 = "real \<times> real \<times> real"

text \<open>
  Floats are modelled by the real numbers they denote. The bounding box of a model has
  the two corners \<open>bbox.min\<close> and \<open>bbox.max\<close>.
\<close>

record BoundingBox =
  min_bb :: vec3
  max_bb :: vec3

text \<open>
  An \<open>UrhoSceneModel\<close>; of each \<open>UrhoSceneMaterial\<close> in \<open>materialsList\<close> only the
  name is used by the code modelled here.
\<close>

record UrhoSceneModel =
  name :: string
  parentObjectName :: "string option"
  type :: string
  materialsList :: "string option list"
  boundingBox :: BoundingBox

text \<open>
  \<^verbatim>\<open>
  for name in names_tree.to_list():
      for model in self.modelsList:
          if model.name == name:
              orderedModelsList.append(model)
              self.modelsList.remove(model)
              break
  \<close>
\<close>

fun rearrange :: "string list \<Rightarrow> UrhoSceneModel list \<Rightarrow> UrhoSceneModel list" where
  "rearrange [] modelsList = []"
| "rearrange (n # names) modelsList =
     (case find (\<lambda>model. name model = n) modelsList of
        None \<Rightarrow> rearrange names modelsList
      | Some model \<Rightarrow> model # rearrange names (remove1 model modelsList))"

text \<open>
  \<open>UrhoScene.SortModels\<close>: the new value of \<open>modelsList\<close>. The first argument is
  the recursion depth available to \<open>to_list\<close>.
\<close>

definition SortModels :: "nat \<Rightarrow> UrhoSceneModel list \<Rightarrow> py_error + UrhoSceneModel list" where
  "SortModels limit modelsList =
     (case to_list limit (push_all (map (\<lambda>model. (name model, parentObjectName model)) modelsList)) of
        None \<Rightarrow> Inl RecursionError
      | Some names \<Rightarrow> Inr (rearrange names modelsList))"

section \<open>XML elements (xml.etree.ElementTree)\<close>

text \<open>
  An element has a tag, an attribute dict (in insertion order) and a list of children.
  \<open>xget\<close> is \<open>Element.get\<close>, \<open>xset\<close> is \<open>Element.set\<close>: an existing key keeps its
  place and gets the new value, a new key is appended.
\<close>

datatype xml = Xml (tag: string) (attrib: "(string \<times> string) list") (kids: "xml list")

definition xget :: "xml \<Rightarrow> string \<Rightarrow> string option" where
  "xget e k = map_of (attrib e) k"

definition xset :: "string \<Rightarrow> string \<Rightarrow> xml \<Rightarrow> xml" where
  "xset k v e = Xml (tag e) (AList.update k v (attrib e)) (kids e)"

text \<open>
  The element built by
  \<^verbatim>\<open>a = ET.SubElement(parent, 'attribute'); a.set('name', n); a.set('value', v)\<close>
\<close>

definition attribute :: "string \<Rightarrow> string \<Rightarrow> xml" where
  "attribute n v = xset ''value'' v (xset ''name'' n (Xml ''attribute'' [] []))"

section \<open>Element objects shared by reference\<close>

text \<open>
  \<open>UrhoExportPrefabs\<close> keeps references to elements it has already attached to
  their parents and goes on adding children to them, so its elements live in a heap:
  an element is addressed by its index and lists its children by address.
  \<open>Element\<close> creates an element, \<open>SubElement\<close> creates one and appends it to the
  children of its parent, \<open>eset\<close> is \<open>Element.set\<close>.
\<close>

record element =
  etag :: string
  eattrib :: "(string \<times> string) list"
  ekids :: "nat list"

type_synonym heap = "element list"

definition Element :: "string \<Rightarrow> heap \<Rightarrow> nat \<times> heap" where
  "Element tg h = (length h, h @ [\<lparr> etag = tg, eattrib = [], ekids = [] \<rparr>])"

definition SubElement :: "nat \<Rightarrow> string \<Rightarrow> heap \<Rightarrow> nat \<times> heap" where
  "SubElement p tg h =
     (case Element tg h of
        (a, h') \<Rightarrow> (a, h'[p := (h' ! p)\<lparr>ekids := ekids (h' ! p) @ [a]\<rparr>]))"

definition eset :: "nat \<Rightarrow> string \<Rightarrow> string \<Rightarrow> heap \<Rightarrow> heap" where
  "eset a k v h = h[a := (h ! a)\<lparr>eattrib := AList.update k v (eattrib (h ! a))\<rparr>]"

text \<open>
  \<^verbatim>\<open>e = ET.SubElement(p, 'attribute'); e.set('name', n); e.set('value', v)\<close>
  and a sequence of these on the same parent.
\<close>

definition add_attribute :: "nat \<Rightarrow> string \<times> string \<Rightarrow> heap \<Rightarrow> heap" where
  "add_attribute p nv h =
     (case SubElement p ''attribute'' h of
        (a, h') \<Rightarrow> eset a ''value'' (snd nv) (eset a ''name'' (fst nv) h'))"

fun add_attributes :: "nat \<Rightarrow> (string \<times> string) list \<Rightarrow> heap \<Rightarrow> heap" where
  "add_attributes p [] h = h"
| "add_attributes p (nv # nvs) h = add_attributes p nvs (add_attribute p nv h)"

text \<open>\<open>e.set(k, v)\<close> for a sequence of keys and values, in order.\<close>

fun eset_all :: "nat \<Rightarrow> (string \<times> string) list \<Rightarrow> heap \<Rightarrow> heap" where
  "eset_all a [] h = h"
| "eset_all a (kv # kvs) h = eset_all a kvs (eset a (fst kv) (snd kv) h)"

text \<open>
  A sub-element of \<open>p\<close> with tag \<open>tg\<close>, the given keys set on it in order, and the
  given \<open>attribute\<close> children added to it in order.
\<close>

definition sub_with ::
  "nat \<Rightarrow> string \<Rightarrow> (string \<times> string) list \<Rightarrow> (string \<times> string) list \<Rightarrow> heap \<Rightarrow> nat \<times> heap" where
  "sub_with p tg sets attrs h =
     (case SubElement p tg h of
        (a, h') \<Rightarrow> (a, add_attributes a attrs (eset_all a sets h')))"

text \<open>
  Two abbreviations used to state what these operations do to a heap: the element of an
  \<open>attribute\<close> with a name and a value, and appending addresses to the children of an
  element.
\<close>

definition attr_elem :: "string \<times> string \<Rightarrow> element" where
  "attr_elem nv = \<lparr> etag = ''attribute'', eattrib = [(''name'', fst nv), (''value'', snd nv)], ekids = [] \<rparr>"

definition add_kids :: "nat \<Rightarrow> nat list \<Rightarrow> heap \<Rightarrow> heap" where
  "add_kids p ks h = h[p := (h ! p)\<lparr>ekids := ekids (h ! p) @ ks\<rparr>]"

text \<open>
  The tree below an address. Every child is created by \<open>SubElement\<close> after its
  parent, so its address is the larger one; the recursion follows such children only.
\<close>

function tree_of :: "heap \<Rightarrow> nat \<Rightarrow> xml" where
  "tree_of h a =
     Xml (etag (h ! a)) (eattrib (h ! a))
       (map (tree_of h) (filter (\<lambda>c. a < c \<and> c < length h) (ekids (h ! a))))"
  by pat_completeness auto
termination
  by (relation "measure (\<lambda>(h, a). length h - a)") auto

declare tree_of.simps [simp del]

section \<open>prefabs.py: bit masks and number formatting\<close>

definition MAX_BITMASK_BITS :: nat where
  "MAX_BITMASK_BITS = 8"

definition MAX_BITMASK_VALUE :: int where
  "MAX_BITMASK_VALUE = push_bit MAX_BITMASK_BITS 1 - 1"

text \<open>
  \<^verbatim>\<open>
  def GetBitMask(layers):
      mask = 0
      for i, bit in enumerate(layers):
          mask = mask | (1 << i if bit else 0)
      if mask == MAX_BITMASK_VALUE:
          mask = -1
      return mask
  \<close>
\<close>

fun mask_loop :: "nat \<Rightarrow> bool list \<Rightarrow> int \<Rightarrow> int" where
  "mask_loop i [] mask' = mask'"
| "mask_loop i (bit' # layers) mask' =
     mask_loop (Suc i) layers (mask' OR (if bit' then push_bit i 1 else 0))"

definition GetBitMask :: "bool list \<Rightarrow> int" where
  "GetBitMask layers =
     (let mask' = mask_loop 0 layers 0
      in if mask' = MAX_BITMASK_VALUE then - 1 else mask')"

text \<open>\<open>'{:d}'.format(i)\<close>: the decimal digits of an integer, with a sign when negative.\<close>

function digits :: "nat \<Rightarrow> string" where
  "digits n = (if n < 10 then [''0123456789'' ! n] else digits (n div 10) @ [''0123456789'' ! (n mod 10)])"
  by pat_completeness auto
termination
  by (relation "measure id") auto

declare digits.simps [simp del]

definition format_d :: "int \<Rightarrow> string" where
  "format_d i = (if i < 0 then CHR ''-'' # digits (nat (- i)) else digits (nat i))"

section \<open>prefabs.py: options, objects and utilities\<close>

record SOptions =
  doIndividualPrefab :: bool
  doCollectivePrefab :: bool
  doScenePrefab :: bool
  doPhysics :: bool
  mergeObjects :: bool
  batchComponents :: bool
  navigation :: bool
  createSkybox :: bool
  skyboxPath :: string
  exportMode :: string

text \<open>
  The custom properties of a Blender object (\<open>UrhoComponentsPanel\<close>). The last field
  stands for the three strings that the code formats for Position, Rotation and Scale
  from the object's matrices, the scene orientation and the scale with mathutils.
\<close>

record obj =
  urho_is_occluder :: bool
  urho_can_be_occluded :: bool
  urho_cast_shadows :: bool
  urho_draw_distance :: real
  urho_shadow_distance :: real
  urho_lod_bias :: real
  urho_max_lights :: int
  urho_view_mask :: "bool list"
  urho_light_mask :: "bool list"
  urho_shadow_mask :: "bool list"
  urho_zone_mask :: "bool list"
  urho_occlusion_lod_level :: int
  urho_create_subnode :: bool
  urho_subnode_rotation :: vec3
  urho_create_navigable :: bool
  urho_activate_physics :: bool
  urho_shape_type :: string
  urho_size_factor :: vec3
  urho_offset_rotation :: vec3
  urho_lod_level :: int
  urho_collision_margin :: real
  urho_customgeometry_nodeid :: int
  urho_overwrite_model :: bool
  urho_model :: string
  urho_overwrite_size :: bool
  urho_size :: vec3
  urho_overwrite_offset_position :: bool
  urho_offset_position :: vec3
  urho_mass :: real
  urho_friction :: real
  urho_anisotropic_friction :: vec3
  urho_rolling_friction :: real
  urho_restitution :: real
  urho_linear_velocity :: vec3
  urho_angular_velocity :: vec3
  urho_linear_factor :: vec3
  urho_angular_factor :: vec3
  urho_linear_damping :: real
  urho_angular_damping :: real
  urho_linear_rest_threshold :: real
  urho_angular_rest_threshold :: real
  urho_collision_layer :: "bool list"
  urho_collision_mask :: "bool list"
  urho_contact_threshold :: real
  urho_ccd_radius :: real
  urho_ccd_motion_threshold :: real
  urho_collision_event_mode :: string
  urho_use_gravity :: bool
  urho_is_kinematic :: bool
  urho_is_trigger :: bool
  urho_gravity_override :: vec3
  node_transform :: "string \<times> string \<times> string"

text \<open>
  utils.py is not part of the sources at hand; what \<open>UrhoExportPrefabs\<close> imports from
  it is a parameter: the two formatters, the path functions (with \<open>fOptions\<close> fixed)
  and the four \<open>PathType\<close> members it names.
\<close>

record utils =
  FloatToString :: "real \<Rightarrow> string"
  Vector3ToString :: "vec3 \<Rightarrow> string"
  GetFilepath :: "string \<Rightarrow> string \<Rightarrow> string \<times> string"
  CheckFilepath :: "string \<Rightarrow> bool"
  MODELS :: string
  MATERIALS :: string
  OBJECTS :: string
  SCENES :: string

text \<open>\<open>bpy.data.objects\<close> and \<open>bpy.context.scene.objects.active\<close>.\<close>

record bpy =
  objects :: "string \<rightharpoonup> obj"
  active :: obj

record UrhoScene =
  blenderSceneName :: string
  modelsList :: "UrhoSceneModel list"
  files :: files

section \<open>prefabs.py: the attributes of the components\<close>

text \<open>
  Each \<open>if cond: e = ET.SubElement(c, 'attribute'); e.set('name', n); e.set('value', v)\<close>
  contributes the pair \<open>(n, v)\<close> when its condition holds. The lists below give, in
  source order, the attribute children of a component.
\<close>

definition opt_attr :: "bool \<Rightarrow> string \<Rightarrow> string \<Rightarrow> (string \<times> string) list" where
  "opt_attr cond n v = (if cond then [(n, v)] else [])"

definition body_attributes :: "utils \<Rightarrow> obj \<Rightarrow> (string \<times> string) list" where
  "body_attributes U ob =
     opt_attr (urho_mass ob \<noteq> 0) ''Mass'' (FloatToString U (urho_mass ob))
   @ opt_attr (urho_friction ob \<noteq> 0.5) ''Friction'' (FloatToString U (urho_friction ob))
   @ opt_attr (Vector3ToString U (urho_anisotropic_friction ob) \<noteq> ''1 1 1'')
       ''Anisotropic Friction'' (Vector3ToString U (urho_anisotropic_friction ob))
   @ opt_attr (urho_rolling_friction ob \<noteq> 0) ''Rolling Friction''
       (FloatToString U (urho_rolling_friction ob))
   @ opt_attr (urho_restitution ob \<noteq> 0) ''Restitution'' (FloatToString U (urho_restitution ob))
   @ opt_attr (Vector3ToString U (urho_linear_velocity ob) \<noteq> ''0 0 0'')
       ''Linear Velocity'' (Vector3ToString U (urho_linear_velocity ob))
   @ opt_attr (Vector3ToString U (urho_angular_velocity ob) \<noteq> ''0 0 0'')
       ''Angular Velocity'' (Vector3ToString U (urho_angular_velocity ob))
   @ opt_attr (Vector3ToString U (urho_linear_factor ob) \<noteq> ''1 1 1'')
       ''Linear Factor'' (Vector3ToString U (urho_linear_factor ob))
   @ opt_attr (Vector3ToString U (urho_angular_factor ob) \<noteq> ''1 1 1'')
       ''Angular Factor'' (Vector3ToString U (urho_angular_factor ob))
   @ opt_attr (urho_linear_damping ob \<noteq> 0) ''Linear Damping''
       (FloatToString U (urho_linear_damping ob))
   @ opt_attr (urho_angular_damping ob \<noteq> 0) ''Angular Damping''
       (FloatToString U (urho_angular_damping ob))
   @ opt_attr (FloatToString U (urho_linear_rest_threshold ob) \<noteq> ''0.8'')
       ''Linear Rest Threshold'' (FloatToString U (urho_linear_rest_threshold ob))
   @ opt_attr (urho_angular_rest_threshold ob \<noteq> 1) ''Angular Rest Threshold''
       (FloatToString U (urho_angular_rest_threshold ob))
   @ opt_attr (urho_collision_layer ob \<noteq> [True, False, False, False, False, False, False, False])
       ''Collision Layer'' (format_d (GetBitMask (urho_collision_layer ob)))
   @ opt_attr (urho_collision_mask ob \<noteq> replicate 8 True)
       ''Collision Mask'' (format_d (GetBitMask (urho_collision_mask ob)))
   @ opt_attr (urho_contact_threshold ob < 10 ^ 17) ''Contact Threshold''
       (FloatToString U (urho_contact_threshold ob))
   @ opt_attr (urho_ccd_radius ob \<noteq> 0) ''CCD Radius'' (FloatToString U (urho_ccd_radius ob))
   @ opt_attr (urho_ccd_motion_threshold ob \<noteq> 0) ''CCD Motion Threshold''
       (FloatToString U (urho_ccd_motion_threshold ob))
   @ opt_attr (urho_collision_event_mode ob \<noteq> ''WHENACTIVE'') ''CCD Motion Threshold''
       (urho_collision_event_mode ob)
   @ opt_attr (\<not> urho_use_gravity ob) ''Use Gravity'' ''false''
   @ opt_attr (urho_is_kinematic ob) ''Is Kinematic'' ''true''
   @ opt_attr (urho_is_trigger ob) ''Is Trigger'' ''true''
   @ opt_attr (Vector3ToString U (urho_gravity_override ob) \<noteq> ''0 0 0'')
       ''Gravity Override'' (Vector3ToString U (urho_gravity_override ob))"

definition shape_attributes ::
  "utils \<Rightarrow> obj \<Rightarrow> string \<Rightarrow> vec3 \<Rightarrow> vec3 \<Rightarrow> (string \<times> string) list" where
  "shape_attributes U ob modelFile shapeSize shapeOffset =
     [(''Shape Type'', urho_shape_type ob)]
   @ (if urho_shape_type ob = ''TriangleMesh'' \<or> urho_shape_type ob = ''ConvexHull'' then
        [(''Model'', ''Model;'' @ (if urho_overwrite_model ob then urho_model ob else modelFile))]
      else
        opt_attr (Vector3ToString U shapeSize \<noteq> ''1 1 1'') ''Size'' (Vector3ToString U shapeSize)
      @ opt_attr (Vector3ToString U shapeOffset \<noteq> ''0 0 0'') ''Offset Position''
          (Vector3ToString U shapeOffset))
   @ opt_attr (Vector3ToString U (urho_offset_rotation ob) \<noteq> ''0 0 0'')
       ''Offset Rotation'' (Vector3ToString U (urho_offset_rotation ob))
   @ opt_attr (urho_lod_level ob \<noteq> 0) ''LOD Level'' (format_d (urho_lod_level ob))
   @ opt_attr (FloatToString U (urho_collision_margin ob) \<noteq> ''0.04'')
       ''Collision Margin'' (FloatToString U (urho_collision_margin ob))
   @ opt_attr (urho_customgeometry_nodeid ob \<noteq> 0) ''CustomGeometry NodeID''
       (format_d (urho_customgeometry_nodeid ob))"

definition model_attributes :: "utils \<Rightarrow> obj \<Rightarrow> string \<Rightarrow> string \<Rightarrow> (string \<times> string) list" where
  "model_attributes U ob modelFile materials =
     [(''Model'', ''Model;'' @ modelFile), (''Material'', ''Material'' @ materials)]
   @ opt_attr (urho_is_occluder ob) ''Is Occluder'' ''true''
   @ opt_attr (\<not> urho_can_be_occluded ob) ''Can Be Occluded'' ''false''
   @ opt_attr (urho_cast_shadows ob) ''Cast Shadows'' ''true''
   @ opt_attr (urho_draw_distance ob \<noteq> 0) ''Draw Distance'' (FloatToString U (urho_draw_distance ob))
   @ opt_attr (urho_shadow_distance ob \<noteq> 0) ''Shadow Distance''
       (FloatToString U (urho_shadow_distance ob))
   @ opt_attr (urho_lod_bias ob \<noteq> 1) ''LOD Bias'' (FloatToString U (urho_lod_bias ob))
   @ opt_attr (urho_max_lights ob \<noteq> 0) ''Max Lights'' (format_d (urho_max_lights ob))
   @ opt_attr (urho_view_mask ob \<noteq> replicate 8 True) ''View Mask''
       (format_d (GetBitMask (urho_view_mask ob)))
   @ opt_attr (urho_light_mask ob \<noteq> replicate 8 True) ''Light Mask''
       (format_d (GetBitMask (urho_light_mask ob)))
   @ opt_attr (urho_shadow_mask ob \<noteq> replicate 8 True) ''Shadow Mask''
       (format_d (GetBitMask (urho_shadow_mask ob)))
   @ opt_attr (urho_zone_mask ob \<noteq> replicate 8 True) ''Zone Mask''
       (format_d (GetBitMask (urho_zone_mask ob)))
   @ opt_attr (urho_occlusion_lod_level ob \<noteq> - 1) ''Occlusion LOD Level''
       (format_d (urho_occlusion_lod_level ob))"

section \<open>prefabs.py: size and offset of the collision shape\<close>

text \<open>
  \<open>bbox\<close>, \<open>x\<close>, \<open>y\<close> and \<open>z\<close> are local variables of \<open>UrhoExportPrefabs\<close>.
  They are assigned together, in the branch that computes the size from the bounding
  box, and keep their values from one iteration of the loop over the models to the
  next. \<open>None\<close> stands for "not assigned yet".
  \<^verbatim>\<open>
  if obj.urho_overwrite_size:
       shapeSize = obj.urho_size
  else:
      bbox = uSceneModel.boundingBox
      x = bbox.max[0] - bbox.min[0]
      y = bbox.max[1] - bbox.min[1]
      z = bbox.max[2] - bbox.min[2]
      size_factor = obj.urho_size_factor
      shapeSize = Vector((x * size_factor[0], y * size_factor[1], z * size_factor[2]))
      if shapeType == 'Box' and y == 0: shapeSize.y = 1
  \<close>
\<close>

type_synonym bbox_locals = "(BoundingBox \<times> real \<times> real \<times> real) option"

definition shape_size :: "obj \<Rightarrow> UrhoSceneModel \<Rightarrow> bbox_locals \<Rightarrow> vec3 \<times> bbox_locals" where
  "shape_size ob uSceneModel locals =
     (if urho_overwrite_size ob then (urho_size ob, locals)
      else
        let bbox = boundingBox uSceneModel;
            x = fst (max_bb bbox) - fst (min_bb bbox);
            y = fst (snd (max_bb bbox)) - fst (snd (min_bb bbox));
            z = snd (snd (max_bb bbox)) - snd (snd (min_bb bbox));
            size_factor = urho_size_factor ob;
            shapeSize = (x * fst size_factor, y * fst (snd size_factor), z * snd (snd size_factor))
        in (if urho_shape_type ob = ''Box'' \<and> y = 0
            then (fst shapeSize, 1, snd (snd shapeSize)) else shapeSize,
            Some (bbox, x, y, z)))"

text \<open>
  \<^verbatim>\<open>
  if obj.urho_overwrite_offset_position:
      shapeOffset = obj.urho_offset_position
  else:
      offsetX = bbox.max[0] - x / 2
      offsetY = bbox.max[1] - y / 2
      offsetZ = bbox.max[2] - z / 2
      shapeOffset = Vector((offsetX, offsetY, offsetZ))
      if shapeType == 'Box' and y == 0: shapeOffset.y = -0.5
  \<close>
  The second argument is the state of the locals after the size was computed.
\<close>

definition shape_offset :: "obj \<Rightarrow> bbox_locals \<Rightarrow> py_error + vec3" where
  "shape_offset ob locals =
     (if urho_overwrite_offset_position ob then Inr (urho_offset_position ob)
      else
        (case locals of
           None \<Rightarrow> Inl (UnboundLocalError ''bbox'')
         | Some (bbox, x, y, z) \<Rightarrow>
             let offsetX = fst (max_bb bbox) - x / 2;
                 offsetY = fst (snd (max_bb bbox)) - y / 2;
                 offsetZ = snd (snd (max_bb bbox)) - z / 2
             in Inr (if urho_shape_type ob = ''Box'' \<and> y = 0
                     then (offsetX, - 0.5, offsetZ) else (offsetX, offsetY, offsetZ))))"

section \<open>prefabs.py: UrhoExportPrefabs\<close>

text \<open>
  How a piece of the function body ends: it falls through to the next statement, it
  executes \<open>return\<close>, or it raises.
\<close>

datatype 'a flow = Next 'a | Return 'a | Raise py_error

text \<open>
  The variables of \<open>UrhoExportPrefabs\<close> that change in the loop over the models: the
  elements, the dict \<open>elements\<close> from model names to elements (an association list in
  insertion order), the two ID counters and the locals \<open>bbox, x, y, z\<close>. \<open>written\<close> records the calls of \<open>WriteXmlFile\<close>: the
  path, the root element passed, and the elements as they are at that moment.
\<close>

record export_state =
  heap :: heap
  elements :: "(string \<times> nat) list"
  nodeID :: int
  compoID :: int
  locals :: bbox_locals
  written :: "(string \<times> nat \<times> heap) list"

text \<open>
  \<^verbatim>\<open>
  materials = ''
  for uSceneMaterial in uSceneModel.materialsList:
      file = uScene.FindFile(PathType.MATERIALS, uSceneMaterial.name)
      if file is None: file = ''
      materials += ';' + file
  \<close>
\<close>

definition gather_materials :: "utils \<Rightarrow> files \<Rightarrow> string option list \<Rightarrow> string" where
  "gather_materials U fs ms =
     foldl (\<lambda>materials nm.
        materials @ '';'' @ (case FindFile fs (MATERIALS U) nm of None \<Rightarrow> [] | Some file \<Rightarrow> file))
       [] ms"

text \<open>
  \<^verbatim>\<open>
  if currentPass == 0:
      individualNode = ET.Element('node')
      individualNode.set('id', '{:d}'.format(nodeID))
      nodeID = 0x1000000 # Reset
  else:
      if uSceneModel.type == 'StaticModel' and uSceneModel.parentObjectName
            and (uSceneModel.parentObjectName in elements):
          for usm in uScene.modelsList:
              if usm.name == uSceneModel.parentObjectName:
                  elements[modelNode] = ET.SubElement(elements[usm.name], 'node')
                  break
      else:
          elements[modelNode] = ET.SubElement(root, 'node')
      nodeID += 1
      elements[modelNode].set('id', '{:d}'.format(nodeID))
  \<close>
  The result is the node of the model (\<open>individualNode\<close> or \<open>elements[modelNode]\<close>)
  and the new state.
\<close>

definition attach_node ::
  "UrhoSceneModel list \<Rightarrow> nat \<Rightarrow> UrhoSceneModel \<Rightarrow> export_state \<Rightarrow>
   py_error + (string \<times> nat) list \<times> heap" where
  "attach_node models root' uSceneModel s =
     (if type uSceneModel = ''StaticModel'' \<and> truthy (parentObjectName uSceneModel)
         \<and> map_of (elements s) (the (parentObjectName uSceneModel)) \<noteq> None then
        (case find (\<lambda>usm. name usm = the (parentObjectName uSceneModel)) models of
           None \<Rightarrow> Inr (elements s, heap s)
         | Some usm \<Rightarrow>
             (case map_of (elements s) (name usm) of
                None \<Rightarrow> Inl (KeyError (name usm))
              | Some pa \<Rightarrow>
                  (case SubElement pa ''node'' (heap s) of
                     (a, h) \<Rightarrow> Inr (AList.update (name uSceneModel) a (elements s), h))))
      else
        (case SubElement root' ''node'' (heap s) of
           (a, h) \<Rightarrow> Inr (AList.update (name uSceneModel) a (elements s), h)))"

definition open_node ::
  "int \<Rightarrow> UrhoSceneModel list \<Rightarrow> nat \<Rightarrow> UrhoSceneModel \<Rightarrow> export_state \<Rightarrow>
   py_error + nat \<times> export_state" where
  "open_node currentPass models root' uSceneModel s =
     (if currentPass = 0 then
        (case Element ''node'' (heap s) of
           (individualNode, h) \<Rightarrow>
             Inr (individualNode,
                  s\<lparr>heap := eset individualNode ''id'' (format_d (nodeID s)) h,
                    nodeID := 0x1000000\<rparr>))
      else
        (case attach_node models root' uSceneModel s of
           Inl e \<Rightarrow> Inl e
         | Inr (els, h) \<Rightarrow>
             (case map_of els (name uSceneModel) of
                None \<Rightarrow> Inl (KeyError (name uSceneModel))
              | Some a \<Rightarrow>
                  Inr (a, s\<lparr>heap := eset a ''id'' (format_d (nodeID s + 1)) h,
                           elements := els, nodeID := nodeID s + 1\<rparr>))))"

text \<open>
  The physics block: the size and offset of the shape, then the RigidBody and the
  CollisionShape components on the node of the model.
  \<^verbatim>\<open>
  if currentPass == 0:
      bodyElem = ET.SubElement(individualNode, 'component')
      compoID = 0x1000000 # Reset
  else: bodyElem = ET.SubElement(elements[modelNode], 'component')
  bodyElem.set('type', 'RigidBody')
  bodyElem.set('id', '{:d}'.format(compoID))
  compoID += 1
  ...
  shapeElem.set('type', 'CollisionShape')
  shapeElem.set('id', '{:d}'.format(compoID))
  compoID += 1
  \<close>
\<close>

definition physics ::
  "utils \<Rightarrow> SOptions \<Rightarrow> int \<Rightarrow> obj \<Rightarrow> UrhoSceneModel \<Rightarrow> string \<Rightarrow> nat \<Rightarrow> export_state \<Rightarrow>
   py_error + export_state" where
  "physics U sOptions currentPass ob uSceneModel modelFile node s =
     (if doPhysics sOptions \<and> urho_activate_physics ob \<and> exportMode sOptions \<noteq> ''Props'' then
        (case shape_size ob uSceneModel (locals s) of
           (shapeSize, locals') \<Rightarrow>
             (case shape_offset ob locals' of
                Inl e \<Rightarrow> Inl e
              | Inr shapeOffset \<Rightarrow>
                  let body_id = (if currentPass = 0 then 0x1000000 else compoID s);
                      h1 = snd (sub_with node ''component''
                             [(''type'', ''RigidBody''), (''id'', format_d body_id)]
                             (body_attributes U ob) (heap s));
                      h2 = snd (sub_with node ''component''
                             [(''type'', ''CollisionShape''), (''id'', format_d (body_id + 1))]
                             (shape_attributes U ob modelFile shapeSize shapeOffset) h1)
                  in Inr (s\<lparr>heap := h2, compoID := body_id + 2, locals := locals'\<rparr>)))
      else Inr s)"

text \<open>
  \<^verbatim>\<open>
  if obj.urho_create_subnode and currentPass == 0:
      subNodeElem = ET.SubElement(individualNode, 'node')
      subNodeElem.set('id', '{:d}'.format(nodeID))
      ... Name = 'SubNode', and Rotation unless '0 0 0'
  \<close>
  The result is the element that receives the Navigable and the model component:
  \<open>subNodeElem\<close> in the individual pass of an object with a sub-node, the node of the
  model otherwise.
\<close>

definition sub_node :: "utils \<Rightarrow> int \<Rightarrow> obj \<Rightarrow> nat \<Rightarrow> export_state \<Rightarrow> nat \<times> export_state" where
  "sub_node U currentPass ob node s =
     (if urho_create_subnode ob \<and> currentPass = 0 then
        (case sub_with node ''node'' [(''id'', format_d (nodeID s))]
                ([(''Name'', ''SubNode'')]
                 @ opt_attr (Vector3ToString U (urho_subnode_rotation ob) \<noteq> ''0 0 0'')
                     ''Rotation'' (Vector3ToString U (urho_subnode_rotation ob)))
                (heap s) of
           (subNodeElem, h) \<Rightarrow> (subNodeElem, s\<lparr>heap := h\<rparr>))
      else (node, s))"

text \<open>
  \<^verbatim>\<open>
  if obj.urho_create_navigable and (uSceneModel.type == 'StaticModel'
                                    or uSceneModel.type == 'TerrainPatch'):
      ... typeElem.set('type', 'Navigable'); typeElem.set('id', ...); compoID += 1
  \<close>
\<close>

definition navigable :: "obj \<Rightarrow> UrhoSceneModel \<Rightarrow> nat \<Rightarrow> export_state \<Rightarrow> export_state" where
  "navigable ob uSceneModel par s =
     (if urho_create_navigable ob
         \<and> (type uSceneModel = ''StaticModel'' \<or> type uSceneModel = ''TerrainPatch'') then
        s\<lparr>heap := snd (sub_with par ''component''
                     [(''type'', ''Navigable''), (''id'', format_d (compoID s))] [] (heap s)),
          compoID := compoID s + 1\<rparr>
      else s)"

text \<open>The StaticModel / AnimatedModel component.\<close>

definition model_component ::
  "utils \<Rightarrow> obj \<Rightarrow> UrhoSceneModel \<Rightarrow> string \<Rightarrow> string \<Rightarrow> nat \<Rightarrow> export_state \<Rightarrow> export_state" where
  "model_component U ob uSceneModel modelFile materials par s =
     s\<lparr>heap := snd (sub_with par ''component''
                  [(''type'', type uSceneModel), (''id'', format_d (compoID s))]
                  (model_attributes U ob modelFile materials) (heap s)),
       compoID := compoID s + 1\<rparr>"

text \<open>
  \<^verbatim>\<open>
  if currentPass == 0:
      xml = individualNode
      filepath = GetFilepath(PathType.OBJECTS, uSceneModel.name, fOptions)
      if CheckFilepath(filepath[0], fOptions):
          WriteXmlFile(xml, filepath[0], fOptions)
  \<close>
\<close>

definition write_file :: "utils \<Rightarrow> string \<Rightarrow> string \<Rightarrow> nat \<Rightarrow> export_state \<Rightarrow> export_state" where
  "write_file U pathType nm a s =
     (let filepath = GetFilepath U pathType nm
      in if CheckFilepath U (fst filepath)
         then s\<lparr>written := written s @ [(fst filepath, a, heap s)]\<rparr> else s)"

text \<open>The body of \<open>for uSceneModel in uScene.modelsList\<close>.\<close>

definition export_object ::
  "utils \<Rightarrow> bpy \<Rightarrow> SOptions \<Rightarrow> bool \<Rightarrow> int \<Rightarrow> UrhoScene \<Rightarrow> nat \<Rightarrow> UrhoSceneModel \<Rightarrow>
   export_state \<Rightarrow> export_state flow" where
  "export_object U B sOptions globalOrigin currentPass uScene root' uSceneModel s =
     (case (if mergeObjects sOptions \<or> batchComponents sOptions then Some (active B)
            else objects B (name uSceneModel)) of
        None \<Rightarrow> Raise (KeyError (name uSceneModel))
      | Some ob \<Rightarrow>
          (case FindFile (files uScene) (MODELS U) (Some (name uSceneModel)) of
             None \<Rightarrow> Return s
           | Some modelFile \<Rightarrow>
               if modelFile = [] then Return s
               else
                 (case open_node currentPass (modelsList uScene) root' uSceneModel s of
                    Inl e \<Rightarrow> Raise e
                  | Inr (node, s1) \<Rightarrow>
                      let materials = gather_materials U (files uScene) (materialsList uSceneModel);
                          s2 = s1\<lparr>heap := add_attribute node (''Name'', name uSceneModel) (heap s1)\<rparr>;
                          s3 = (if \<not> globalOrigin \<and> 0 < currentPass then
                                  s2\<lparr>heap := add_attributes node
                                       [(''Position'', fst (node_transform ob)),
                                        (''Rotation'', fst (snd (node_transform ob))),
                                        (''Scale'', snd (snd (node_transform ob)))] (heap s2)\<rparr>
                                else s2)
                      in (case physics U sOptions currentPass ob uSceneModel modelFile node s3 of
                            Inl e \<Rightarrow> Raise e
                          | Inr s4 \<Rightarrow>
                              (case sub_node U currentPass ob node s4 of
                                 (par, s5) \<Rightarrow>
                                   let s6 = navigable ob uSceneModel par s5;
                                       s7 = model_component U ob uSceneModel modelFile materials par s6
                                   in Next (if currentPass = 0
                                            then write_file U (OBJECTS U) (name uSceneModel) node s7
                                            else s7))))))"

fun export_models ::
  "(UrhoSceneModel \<Rightarrow> export_state \<Rightarrow> export_state flow) \<Rightarrow> UrhoSceneModel list \<Rightarrow>
   export_state \<Rightarrow> export_state flow" where
  "export_models body [] s = Next s"
| "export_models body (uSceneModel # rest) s =
     (case body uSceneModel s of
        Next s' \<Rightarrow> export_models body rest s'
      | Return s' \<Rightarrow> Return s'
      | Raise e \<Rightarrow> Raise e)"

text \<open>
  The elements created before the loop: with \<open>doScenePrefab\<close> the scene element, its
  fixed components, the light node (which takes the first node ID) and the root node
  below the scene; otherwise the root node alone. The result is \<open>sceneRoot\<close> (if any),
  \<open>root\<close>, the elements and the node ID counter.
\<close>

definition create_roots :: "SOptions \<Rightarrow> int \<Rightarrow> nat option \<times> nat \<times> heap \<times> int" where
  "create_roots sOptions nodeID0 =
     (if doScenePrefab sOptions then
        (case Element ''scene'' [] of
           (sceneRoot, h0) \<Rightarrow>
             let h1 = eset sceneRoot ''id'' ''1'' h0;
                 h2 = snd (sub_with sceneRoot ''component''
                        [(''type'', ''Octree''), (''id'', ''1'')] [] h1);
                 h3 = snd (sub_with sceneRoot ''component''
                        [(''type'', ''DebugRenderer''), (''id'', ''2'')] [] h2);
                 h4 = (if createSkybox sOptions then
                         snd (sub_with sceneRoot ''component''
                           [(''type'', ''Skybox''), (''id'', ''4'')]
                           [(''Model'', ''Model;Models/Box.mdl''),
                            (''Material'', ''Material;'' @ skyboxPath sOptions)] h3)
                       else h3);
                 h5 = (if navigation sOptions then
                         snd (sub_with sceneRoot ''component''
                           [(''type'', ''NavigationMesh''), (''id'', ''5'')] [] h4)
                       else h4);
                 h6 = (if doPhysics sOptions \<and> exportMode sOptions \<noteq> ''Props'' then
                         snd (sub_with sceneRoot ''component''
                           [(''type'', ''PhysicsWorld''), (''id'', ''6'')] [] h5)
                       else h5)
             in (case sub_with sceneRoot ''node'' [(''id'', format_d nodeID0)]
                        [(''Name'', ''DirectionalLight''), (''Rotation'', ''0.9 0.4 0.25 0'')] h6 of
                   (lightNodeElem, h7) \<Rightarrow>
                     let h8 = snd (sub_with lightNodeElem ''component''
                                [(''type'', ''Light''), (''id'', ''7'')]
                                [(''Light Type'', ''Directional'')] h7)
                     in (case SubElement sceneRoot ''node'' h8 of
                           (root', h9) \<Rightarrow> (Some sceneRoot, root', h9, nodeID0 + 1))))
      else
        (case Element ''node'' [] of (root', h) \<Rightarrow> (None, root', h, nodeID0)))"

text \<open>
  Everything before \<open>uScene.SortModels()\<close>: the roots, the ID and the Name of the root
  node, its Navigable component, and the initial values of the loop variables
  (\<open>elements = {}\<close>, \<open>nodeID\<close>, \<open>compoID = 0x1000000\<close>, \<open>bbox\<close> unassigned).
\<close>

definition prologue :: "SOptions \<Rightarrow> string \<Rightarrow> nat option \<times> nat \<times> export_state" where
  "prologue sOptions sceneName =
     (case create_roots sOptions 0x1000000 of
        (sceneRoot, root', h0, nodeID1) \<Rightarrow>
          let h1 = add_attribute root' (''Name'', sceneName)
                     (eset root' ''id'' (format_d nodeID1) h0);
              h2 = (if navigation sOptions
                    then snd (sub_with root' ''component'' [(''type'', ''Navigable'')] [] h1)
                    else h1)
          in (sceneRoot, root',
              \<lparr> heap = h2, elements = [], nodeID = nodeID1,
                compoID = 0x1000000, locals = None, written = [] \<rparr>))"

text \<open>
  Everything after the loop:
  \<^verbatim>\<open>
  if sOptions.doCollectivePrefab and not sOptions.mergeObjects:
      filepath = GetFilepath(PathType.OBJECTS, uScene.blenderSceneName, fOptions)
      if CheckFilepath(filepath[0], fOptions): WriteXmlFile(root, filepath[0], fOptions)
  if sOptions.doScenePrefab:
      filepath = GetFilepath(PathType.SCENES, uScene.blenderSceneName, fOptions)
      if CheckFilepath(filepath[0], fOptions): WriteXmlFile(sceneRoot, filepath[0], fOptions)
  \<close>
\<close>

definition epilogue ::
  "utils \<Rightarrow> SOptions \<Rightarrow> string \<Rightarrow> nat option \<Rightarrow> nat \<Rightarrow> export_state \<Rightarrow> export_state" where
  "epilogue U sOptions sceneName sceneRoot root' s =
     (let s1 = (if doCollectivePrefab sOptions \<and> \<not> mergeObjects sOptions
                then write_file U (OBJECTS U) sceneName root' s else s)
      in (case sceneRoot of
            None \<Rightarrow> s1
          | Some sr \<Rightarrow> write_file U (SCENES U) sceneName sr s1))"

text \<open>
  \<open>UrhoExportPrefabs\<close>. \<open>limit\<close> is the recursion depth available to \<open>SortModels\<close>.
  The function ends by falling off its end (\<open>Next\<close>), by the \<open>return\<close> in the loop, or
  by an exception.
\<close>

definition UrhoExportPrefabs ::
  "nat \<Rightarrow> utils \<Rightarrow> bpy \<Rightarrow> UrhoScene \<Rightarrow> SOptions \<Rightarrow> bool \<Rightarrow> int \<Rightarrow> export_state flow" where
  "UrhoExportPrefabs limit U B uScene sOptions globalOrigin currentPass =
     (case prologue sOptions (blenderSceneName uScene) of
        (sceneRoot, root', s0) \<Rightarrow>
          (case SortModels limit (modelsList uScene) of
             Inl e \<Rightarrow> Raise e
           | Inr ordered \<Rightarrow>
               (case export_models
                       (export_object U B sOptions globalOrigin currentPass
                          (uScene\<lparr>modelsList := ordered\<rparr>) root')
                       ordered s0 of
                  Raise e \<Rightarrow> Raise e
                | Return s \<Rightarrow> Return s
                | Next s \<Rightarrow>
                    Next (epilogue U sOptions (blenderSceneName uScene) sceneRoot root' s))))"

text \<open>The documents written, as trees: the path and the tree below the root passed.\<close>

definition documents :: "export_state \<Rightarrow> (string \<times> xml) list" where
  "documents s = map (\<lambda>(path, a, h). (path, tree_of h a)) (written s)"

text \<open>
  The element that the amended nesting rule names as parent of the node of a model in
  the collective pass: the node of the parent object when the model is a StaticModel
  whose parent name is set and already has a node in \<open>elements\<close>, the root otherwise.
\<close>

definition expected_parent :: "nat \<Rightarrow> UrhoSceneModel \<Rightarrow> export_state \<Rightarrow> nat" where
  "expected_parent root' uSceneModel s =
     (if type uSceneModel = ''StaticModel'' \<and> truthy (parentObjectName uSceneModel) then
        (case map_of (elements s) (the (parentObjectName uSceneModel)) of
           Some pa \<Rightarrow> pa
         | None \<Rightarrow> root')
      else root')"

section \<open>Example data\<close>

text \<open>
  An object with every custom property at the default that \<open>UrhoComponentsPanel\<close>
  declares for it.
\<close>

definition default_obj :: obj where
  "default_obj = \<lparr>
     urho_is_occluder = False,
     urho_can_be_occluded = True,
     urho_cast_shadows = False,
     urho_draw_distance = 0,
     urho_shadow_distance = 0,
     urho_lod_bias = 1,
     urho_max_lights = 0,
     urho_view_mask = replicate 8 True,
     urho_light_mask = replicate 8 True,
     urho_shadow_mask = replicate 8 True,
     urho_zone_mask = replicate 8 True,
     urho_occlusion_lod_level = - 1,
     urho_create_subnode = False,
     urho_subnode_rotation = (0, 0, 0),
     urho_create_navigable = False,
     urho_activate_physics = False,
     urho_shape_type = ''TriangleMesh'',
     urho_size_factor = (1, 1, 1),
     urho_offset_rotation = (0, 0, 0),
     urho_lod_level = 0,
     urho_collision_margin = 0.04,
     urho_customgeometry_nodeid = 0,
     urho_overwrite_model = False,
     urho_model = [],
     urho_overwrite_size = False,
     urho_size = (0, 0, 0),
     urho_overwrite_offset_position = False,
     urho_offset_position = (0, 0, 0),
     urho_mass = 0,
     urho_friction = 0.5,
     urho_anisotropic_friction = (1, 1, 1),
     urho_rolling_friction = 0,
     urho_restitution = 0,
     urho_linear_velocity = (0, 0, 0),
     urho_angular_velocity = (0, 0, 0),
     urho_linear_factor = (1, 1, 1),
     urho_angular_factor = (1, 1, 1),
     urho_linear_damping = 0,
     urho_angular_damping = 0,
     urho_linear_rest_threshold = 0.8,
     urho_angular_rest_threshold = 1,
     urho_collision_layer = [True, False, False, False, False, False, False, False],
     urho_collision_mask = replicate 8 True,
     urho_contact_threshold = 10 ^ 18,
     urho_ccd_radius = 0,
     urho_ccd_motion_threshold = 0,
     urho_collision_event_mode = ''WHENACTIVE'',
     urho_use_gravity = True,
     urho_is_kinematic = False,
     urho_is_trigger = False,
     urho_gravity_override = (0, 0, 0),
     node_transform = (''0 0 0'', ''0 0 0'', ''1 1 1'') \<rparr>"

text \<open>
  Stand-ins for utils.py in the examples: formatters that render the values occurring
  in the examples, paths made of the path type and the name, and no file refused.
\<close>

definition example_float :: "real \<Rightarrow> string" where
  "example_float r =
     (if r = 0.8 then ''0.8'' else if r = 0.04 then ''0.04'' else if r = 0.7 then ''0.7''
      else if r = 0.5 then ''0.5'' else if r = - 0.5 then ''-0.5''
      else if r = 0 then ''0'' else if r = 1 then ''1'' else if r = 2 then ''2''
      else if r = 4 then ''4'' else ''?'')"

definition example_utils :: utils where
  "example_utils = \<lparr>
     FloatToString = example_float,
     Vector3ToString = (\<lambda>(x, y, z). example_float x @ '' '' @ example_float y @ '' '' @ example_float z),
     GetFilepath = (\<lambda>pathType nm. (pathType @ nm @ ''.xml'', nm @ ''.xml'')),
     CheckFilepath = (\<lambda>path. True),
     MODELS = ''MODE-'', MATERIALS = ''MATE-'', OBJECTS = ''OBJE-'', SCENES = ''SCEN-'' \<rparr>"

definition example_model :: "string \<Rightarrow> string option \<Rightarrow> string \<Rightarrow> UrhoSceneModel" where
  "example_model n p ty =
     \<lparr> name = n, parentObjectName = p, type = ty, materialsList = [],
       boundingBox = \<lparr> min_bb = (0, 0, 0), max_bb = (2, 0, 4) \<rparr> \<rparr>"

definition example_options :: SOptions where
  "example_options = \<lparr>
     doIndividualPrefab = True, doCollectivePrefab = True, doScenePrefab = False,
     doPhysics = False, mergeObjects = False, batchComponents = False, navigation = False,
     createSkybox = False, skyboxPath = [], exportMode = ''Everything'' \<rparr>"

text \<open>
  The scenario of the specification: Cube and its child Cube.001, both static models
  whose mesh files are registered, every object with default properties.
\<close>

definition cube_files :: files where
  "cube_files = [''MODE-Cube'' \<mapsto> ''Models/Cube.mdl'', ''MODE-Cube.001'' \<mapsto> ''Models/Cube.001.mdl'']"

definition cube_scene :: UrhoScene where
  "cube_scene = \<lparr>
     blenderSceneName = ''Scene'',
     modelsList = [example_model ''Cube'' None ''StaticModel'',
                   example_model ''Cube.001'' (Some ''Cube'') ''StaticModel''],
     files = cube_files \<rparr>"

definition default_bpy :: bpy where
  "default_bpy = \<lparr> objects = (\<lambda>n. Some default_obj), active = default_obj \<rparr>"

text \<open>
  A scene for the physics block: a flat Plane (bounding box from \<open>(0,0,0)\<close> to
  \<open>(2,0,4)\<close>) with a Box shape computed from its bounding box, followed by a Crate
  whose size is overwritten and whose offset is not.
\<close>

definition physics_options :: SOptions where
  "physics_options = example_options\<lparr>doPhysics := True\<rparr>"

definition box_obj :: obj where
  "box_obj = default_obj\<lparr>urho_activate_physics := True, urho_shape_type := ''Box''\<rparr>"

definition sized_obj :: obj where
  "sized_obj = box_obj\<lparr>urho_overwrite_size := True, urho_size := (2, 2, 2)\<rparr>"

definition plane_model :: UrhoSceneModel where
  "plane_model = example_model ''Plane'' None ''StaticModel''"

definition crate_model :: UrhoSceneModel where
  "crate_model =
     \<lparr> name = ''Crate'', parentObjectName = None, type = ''StaticModel'', materialsList = [],
       boundingBox = \<lparr> min_bb = (0, 0, 0), max_bb = (8, 8, 8) \<rparr> \<rparr>"

definition physics_scene :: UrhoScene where
  "physics_scene = \<lparr>
     blenderSceneName = ''Scene'',
     modelsList = [plane_model, crate_model],
     files = [''MODE-Plane'' \<mapsto> ''Models/Plane.mdl'', ''MODE-Crate'' \<mapsto> ''Models/Crate.mdl''] \<rparr>"

definition physics_bpy :: bpy where
  "physics_bpy = \<lparr>
     objects = (\<lambda>n. if n = ''Plane'' then Some box_obj
                    else if n = ''Crate'' then Some sized_obj else None),
     active = default_obj \<rparr>"

text \<open>
  Variants of the Cube scenario: the mesh file of Cube is not registered; the mesh file
  of Cube.001 is not registered; the child is an animated model (Armature) of the static
  Cube.
\<close>

definition no_cube_scene :: UrhoScene where
  "no_cube_scene = cube_scene\<lparr>files := [''MODE-Cube.001'' \<mapsto> ''Models/Cube.001.mdl'']\<rparr>"

definition no_child_scene :: UrhoScene where
  "no_child_scene = cube_scene\<lparr>files := [''MODE-Cube'' \<mapsto> ''Models/Cube.mdl'']\<rparr>"

definition animated_child_scene :: UrhoScene where
  "animated_child_scene = \<lparr>
     blenderSceneName = ''Scene'',
     modelsList = [example_model ''Cube'' None ''StaticModel'',
                   example_model ''Armature'' (Some ''Cube'') ''AnimatedModel''],
     files = [''MODE-Cube'' \<mapsto> ''Models/Cube.mdl'', ''MODE-Armature'' \<mapsto> ''Models/Armature.mdl''] \<rparr>"

text \<open>Objects whose friction is 0.7 and whose physics is not activated.\<close>

definition friction_obj :: obj where
  "friction_obj = default_obj\<lparr>urho_friction := 0.7\<rparr>"

definition friction_bpy :: bpy where
  "friction_bpy = \<lparr> objects = (\<lambda>n. Some friction_obj), active = friction_obj \<rparr>"

text \<open>
  The state of the collective pass over the Cube scenario after Cube was exported and
  before Cube.001 is: the root is element 0 and the node of Cube is element 2.
\<close>

definition cube_emitted :: export_state where
  "cube_emitted =
     \<lparr>heap =
        [\<lparr>etag = ''node'', eattrib = [(''id'', ''16777216'')], ekids = [1, 2]\<rparr>,
         \<lparr>etag = ''attribute'', eattrib = [(''name'', ''Name''), (''value'', ''Scene'')],
            ekids = []\<rparr>,
         \<lparr>etag = ''node'', eattrib = [(''id'', ''16777217'')], ekids = [3, 4]\<rparr>,
         \<lparr>etag = ''attribute'', eattrib = [(''name'', ''Name''), (''value'', ''Cube'')],
            ekids = []\<rparr>,
         \<lparr>etag = ''component'',
            eattrib = [(''type'', ''StaticModel''), (''id'', ''16777216'')], ekids = [5, 6]\<rparr>,
         \<lparr>etag = ''attribute'',
            eattrib = [(''name'', ''Model''), (''value'', ''Model;Models/Cube.mdl'')],
            ekids = []\<rparr>,
         \<lparr>etag = ''attribute'', eattrib = [(''name'', ''Material''), (''value'', ''Material'')],
            ekids = []\<rparr>],
      elements = [(''Cube'', 2)], nodeID = 16777217, compoID = 16777217, locals = None,
      written = []\<rparr>"

text \<open>An object whose friction is 0.7 and whose physics is activated.\<close>

definition slippery_obj :: obj where
  "slippery_obj = friction_obj\<lparr>urho_activate_physics := True\<rparr>"

text \<open>
  Items for the hierarchical sorting: a child pushed before its parent, and the same item
  pushed twice.
\<close>

definition forward_items :: "(string \<times> string option) list" where
  "forward_items =
     [(''Cube.001'', Some ''Cube''), (''Cube'', None), (''Cube.002'', Some ''Cube'')]"

definition duplicate_items :: "(string \<times> string option) list" where
  "duplicate_items = [(''Cube.001'', Some ''Cube''), (''Cube.001'', Some ''Cube'')]"

section \<open>urho\_scene\_prefab.py: building a scene from individual prefabs\<close>

text \<open>
  \<^verbatim>\<open>
  for attribute in prefab_root.findall('attribute'):
      elem = attribute.get('name')
      if  elem == 'Position':  attribute.set('value', pos);   pos = ''
      elif elem == 'Rotation': attribute.set('value', rot);   rot = ''
      elif elem == 'Scale':    attribute.set('value', scale); scale = ''
  \<close>
  \<open>findall('attribute')\<close> visits the direct children whose tag is \<open>attribute\<close>, in
  document order; the other children are left alone. The loop carries the three strings
  and returns them with the rewritten children.
\<close>

fun rewrite_transforms ::
  "xml list \<Rightarrow> string \<Rightarrow> string \<Rightarrow> string \<Rightarrow> xml list \<times> string \<times> string \<times> string" where
  "rewrite_transforms [] pos rot scale = ([], pos, rot, scale)"
| "rewrite_transforms (c # cs) pos rot scale =
     (if tag c = ''attribute'' then
        (if xget c ''name'' = Some ''Position'' then
           (case rewrite_transforms cs [] rot scale of
              (cs', r) \<Rightarrow> (xset ''value'' pos c # cs', r))
         else if xget c ''name'' = Some ''Rotation'' then
           (case rewrite_transforms cs pos [] scale of
              (cs', r) \<Rightarrow> (xset ''value'' rot c # cs', r))
         else if xget c ''name'' = Some ''Scale'' then
           (case rewrite_transforms cs pos rot [] of
              (cs', r) \<Rightarrow> (xset ''value'' scale c # cs', r))
         else
           (case rewrite_transforms cs pos rot scale of (cs', r) \<Rightarrow> (c # cs', r)))
      else
        (case rewrite_transforms cs pos rot scale of (cs', r) \<Rightarrow> (c # cs', r)))"

text \<open>
  \<^verbatim>\<open>
  if pos != '':
      p = ET.SubElement(prefab_root, 'attribute'); p.set('name', 'Position'); p.set('value', pos)
  if rot != '': ...  'Rotation'
  if scale != '': ... 'Scale'
  \<close>
\<close>

definition set_transforms :: "xml \<Rightarrow> string \<Rightarrow> string \<Rightarrow> string \<Rightarrow> xml" where
  "set_transforms prefab_root pos rot scale =
     (case rewrite_transforms (kids prefab_root) pos rot scale of
        (cs, pos', rot', scale') \<Rightarrow>
          Xml (tag prefab_root) (attrib prefab_root)
            (cs @ (if pos' \<noteq> [] then [attribute ''Position'' pos'] else [])
                @ (if rot' \<noteq> [] then [attribute ''Rotation'' rot'] else [])
                @ (if scale' \<noteq> [] then [attribute ''Scale'' scale'] else [])))"






text \<open>
  An \<open>UrhoInstance\<close>. Its matrix is only used to compute the three transform strings,
  with mathutils and the scene's orientation and scale; that computation is a parameter
  of the loop below and may raise.
\<close>

record 'm UrhoInstance =
  name_inst :: string
  parentName :: "string option"
  matrix :: 'm
  objectName :: string

text \<open>
  \<^verbatim>\<open>
  def GetPrefabRoot(self, name, fOptions):
      prefabFile = GetFilepath(PathType.OBJECTS, name, fOptions) [0]
      if not exists(prefabFile): ... return None
      prefab_root = ET.parse(prefabFile).getroot()
      if prefab_root.tag != 'node': ... return None
      return prefab_root
  \<close>
  The first argument gives, for a prefab name, the root element parsed from its file,
  or \<open>None\<close> when the file does not exist.
\<close>

definition GetPrefabRoot :: "(string \<Rightarrow> xml option) \<Rightarrow> string \<Rightarrow> xml option" where
  "GetPrefabRoot disk nm =
     (case disk nm of
        None \<Rightarrow> None
      | Some prefab_root \<Rightarrow> if tag prefab_root \<noteq> ''node'' then None else Some prefab_root)"

text \<open>
  The elements placed so far live in a store, addressed by their index: the subtree read
  from the file (with its transforms set) and the addresses of the instance roots that
  were appended to it later. \<open>elements_s\<close> is the dict \<open>elements\<close> from object names to placed
  roots and \<open>scene_kids\<close> are the roots appended to \<open>sceneRoot\<close>.
\<close>

record scene_state =
  placed :: "(xml \<times> nat list) list"
  elements_s :: "(string \<times> nat) list"
  scene_kids :: "nat list"

definition append_to :: "nat \<Rightarrow> nat \<Rightarrow> (xml \<times> nat list) list \<Rightarrow> (xml \<times> nat list) list" where
  "append_to a child st = st[a := (fst (st ! a), snd (st ! a) @ [child])]"

text \<open>
  One iteration of \<open>for instance in instances\<close>:
  \<^verbatim>\<open>
  prefab_root = self.GetPrefabRoot(instance.name, fOptions)
  if not prefab_root: continue
  elements[instance.objectName] = prefab_root
  ... pos, rot, scale computed ...
  ... transforms set on prefab_root ...
  if instance.parentName and instance.objectName in elements:
      elements[instance.parentName].append(prefab_root)
  else:
      sceneRoot.append(prefab_root)
  \<close>
  \<open>not prefab_root\<close> is also true of an element without children.
\<close>

definition place_instance ::
  "(string \<Rightarrow> xml option) \<Rightarrow> ('m \<Rightarrow> py_error + string \<times> string \<times> string) \<Rightarrow>
   'm UrhoInstance \<Rightarrow> scene_state \<Rightarrow> py_error + scene_state" where
  "place_instance disk transforms inst s =
     (case GetPrefabRoot disk (name_inst inst) of
        None \<Rightarrow> Inr s
      | Some prefab_root \<Rightarrow>
          if kids prefab_root = [] then Inr s
          else
            let a = length (placed s);
                els = AList.update (objectName inst) a (elements_s s)
            in (case transforms (matrix inst) of
                  Inl e \<Rightarrow> Inl e
                | Inr (pos, rot, scale) \<Rightarrow>
                    let st = placed s @ [(set_transforms prefab_root pos rot scale, [])]
                    in if truthy (parentName inst) \<and> map_of els (objectName inst) \<noteq> None then
                         (case map_of els (the (parentName inst)) of
                            None \<Rightarrow> Inl (KeyError (the (parentName inst)))
                          | Some pa \<Rightarrow>
                              Inr (s\<lparr>placed := append_to pa a st, elements_s := els\<rparr>))
                       else
                         Inr (s\<lparr>placed := st, elements_s := els,
                                scene_kids := scene_kids s @ [a]\<rparr>)))"

fun place_instances ::
  "(string \<Rightarrow> xml option) \<Rightarrow> ('m \<Rightarrow> py_error + string \<times> string \<times> string) \<Rightarrow>
   'm UrhoInstance list \<Rightarrow> scene_state \<Rightarrow> py_error + scene_state" where
  "place_instances disk transforms [] s = Inr s"
| "place_instances disk transforms (inst # rest) s =
     (case place_instance disk transforms inst s of
        Inl e \<Rightarrow> Inl e
      | Inr s' \<Rightarrow> place_instances disk transforms rest s')"

definition empty_scene :: scene_state where
  "empty_scene = \<lparr> placed = [], elements_s = [], scene_kids = [] \<rparr>"

section \<open>Example data for the scene built from prefabs\<close>

text \<open>
  The individual prefab that the individual pass writes for Cube in the scenario above:
  the root carries the Name attribute and the model component, and no transform.
\<close>

definition cube_prefab :: xml where
  "cube_prefab =
     Xml ''node'' [(''id'', ''16777216'')]
       [attribute ''Name'' ''Cube'',
        Xml ''component'' [(''type'', ''StaticModel''), (''id'', ''16777216'')]
          [attribute ''Model'' ''Model;Models/Cube.mdl'', attribute ''Material'' ''Material'']]"

text \<open>
  An instance of Cube.001 whose parent is Cube, on a disk that holds the prefab file of
  Cube.001 and none for Cube.
\<close>

definition child_instance :: "unit UrhoInstance" where
  "child_instance =
     \<lparr> name_inst = ''Cube.001'', parentName = Some ''Cube'', matrix = (),
       objectName = ''Cube.001'' \<rparr>"

definition child_only_disk :: "string \<Rightarrow> xml option" where
  "child_only_disk nm = (if nm = ''Cube.001'' then Some cube_prefab else None)"

section \<open>Evaluating the examples\<close>

text \<open>The fields of the example data.\<close>

lemma default_obj_sel:
  "urho_is_occluder default_obj = False"
  "urho_can_be_occluded default_obj = True"
  "urho_cast_shadows default_obj = False"
  "urho_draw_distance default_obj = 0"
  "urho_shadow_distance default_obj = 0"
  "urho_lod_bias default_obj = 1"
  "urho_max_lights default_obj = 0"
  "urho_view_mask default_obj = (replicate 8 True)"
  "urho_light_mask default_obj = (replicate 8 True)"
  "urho_shadow_mask default_obj = (replicate 8 True)"
  "urho_zone_mask default_obj = (replicate 8 True)"
  "urho_occlusion_lod_level default_obj = (- 1)"
  "urho_create_subnode default_obj = False"
  "urho_subnode_rotation default_obj = (0, 0, 0)"
  "urho_create_navigable default_obj = False"
  "urho_activate_physics default_obj = False"
  "urho_shape_type default_obj = ''TriangleMesh''"
  "urho_size_factor default_obj = (1, 1, 1)"
  "urho_offset_rotation default_obj = (0, 0, 0)"
  "urho_lod_level default_obj = 0"
  "urho_collision_margin default_obj = (0.04)"
  "urho_customgeometry_nodeid default_obj = 0"
  "urho_overwrite_model default_obj = False"
  "urho_model default_obj = []"
  "urho_overwrite_size default_obj = False"
  "urho_size default_obj = (0, 0, 0)"
  "urho_overwrite_offset_position default_obj = False"
  "urho_offset_position default_obj = (0, 0, 0)"
  "urho_mass default_obj = 0"
  "urho_friction default_obj = (0.5)"
  "urho_anisotropic_friction default_obj = (1, 1, 1)"
  "urho_rolling_friction default_obj = 0"
  "urho_restitution default_obj = 0"
  "urho_linear_velocity default_obj = (0, 0, 0)"
  "urho_angular_velocity default_obj = (0, 0, 0)"
  "urho_linear_factor default_obj = (1, 1, 1)"
  "urho_angular_factor default_obj = (1, 1, 1)"
  "urho_linear_damping default_obj = 0"
  "urho_angular_damping default_obj = 0"
  "urho_linear_rest_threshold default_obj = (0.8)"
  "urho_angular_rest_threshold default_obj = 1"
  "urho_collision_layer default_obj = [True, False, False, False, False, False, False, False]"
  "urho_collision_mask default_obj = (replicate 8 True)"
  "urho_contact_threshold default_obj = (10 ^ 18)"
  "urho_ccd_radius default_obj = 0"
  "urho_ccd_motion_threshold default_obj = 0"
  "urho_collision_event_mode default_obj = ''WHENACTIVE''"
  "urho_use_gravity default_obj = True"
  "urho_is_kinematic default_obj = False"
  "urho_is_trigger default_obj = False"
  "urho_gravity_override default_obj = (0, 0, 0)"
  "node_transform default_obj = (''0 0 0'', ''0 0 0'', ''1 1 1'')"
  by (simp_all add: default_obj_def)

lemma example_utils_sel:
  "FloatToString example_utils = example_float"
  "Vector3ToString example_utils = (\<lambda>(x, y, z). example_float x @ '' '' @ example_float y @ '' '' @ example_float z)"
  "GetFilepath example_utils = (\<lambda>pathType nm. (pathType @ nm @ ''.xml'', nm @ ''.xml''))"
  "CheckFilepath example_utils = (\<lambda>path. True)"
  "MODELS example_utils = ''MODE-''" "MATERIALS example_utils = ''MATE-''"
  "OBJECTS example_utils = ''OBJE-''" "SCENES example_utils = ''SCEN-''"
  by (simp_all add: example_utils_def)

lemma example_options_sel:
  "doIndividualPrefab example_options = True" "doCollectivePrefab example_options = True"
  "doScenePrefab example_options = False" "doPhysics example_options = False"
  "mergeObjects example_options = False" "batchComponents example_options = False"
  "navigation example_options = False" "createSkybox example_options = False"
  "skyboxPath example_options = []" "exportMode example_options = ''Everything''"
  by (simp_all add: example_options_def)

lemma example_model_sel:
  "name (example_model n p ty) = n" "parentObjectName (example_model n p ty) = p"
  "type (example_model n p ty) = ty" "materialsList (example_model n p ty) = []"
  "boundingBox (example_model n p ty) = \<lparr> min_bb = (0, 0, 0), max_bb = (2, 0, 4) \<rparr>"
  by (simp_all add: example_model_def)

lemma model_attributes_default:
  "model_attributes example_utils default_obj mf mats = [(''Model'', ''Model;'' @ mf), (''Material'', ''Material'' @ mats)]"
  by (simp add: model_attributes_def opt_attr_def default_obj_sel)

lemma fmt: "format_d 16777216 = ''16777216''" "format_d 16777217 = ''16777217''" "format_d 16777218 = ''16777218''"
  by (simp_all add: format_d_def digits.simps)




section \<open>What the element operations do to the heap\<close>

lemma add_kids_length [simp]: "length (add_kids p ks h) = length h"
  by (simp add: add_kids_def)

lemma add_kids_nil [simp]: "add_kids p [] h = h"
  by (simp add: add_kids_def)

lemma add_kids_add_kids: "p < length h \<Longrightarrow> add_kids p ks' (add_kids p ks h) = add_kids p (ks @ ks') h"
  by (simp add: add_kids_def)

lemma add_kids_append: "p < length h \<Longrightarrow> add_kids p ks (h @ es) = add_kids p ks h @ es"
  by (simp add: add_kids_def list_update_append nth_append)

lemma SubElement_eq:
  "SubElement p tg h = (length h, add_kids p [length h] (h @ [\<lparr> etag = tg, eattrib = [], ekids = [] \<rparr>]))"
  by (simp add: SubElement_def Element_def add_kids_def)

lemma update_last: "length xs = n \<Longrightarrow> (xs @ [x])[n := y] = xs @ [y]"
  by auto

lemma add_attribute_eq:
  "p < length h \<Longrightarrow> add_attribute p nv h = add_kids p [length h] h @ [attr_elem nv]"
  by (simp add: add_attribute_def SubElement_eq eset_def add_kids_append attr_elem_def nth_append
        update_last)

lemma add_attributes_eq:
  "p < length h \<Longrightarrow>
   add_attributes p nvs h = add_kids p [length h ..< length h + length nvs] h @ map attr_elem nvs"
proof (induction nvs arbitrary: h)
  case Nil
  then show ?case by simp
next
  case (Cons nv nvs)
  have ks: "[length h] @ [Suc (length h) ..< Suc (length h) + length nvs]
            = [length h ..< length h + length (nv # nvs)]"
    using upt_conv_Cons[of "length h" "length h + length (nv # nvs)"] by simp
  have "add_attributes p (nv # nvs) h = add_attributes p nvs (add_kids p [length h] h @ [attr_elem nv])"
    using Cons.prems by (simp add: add_attribute_eq)
  also have "\<dots> = add_kids p [Suc (length h) ..< Suc (length h) + length nvs]
                      (add_kids p [length h] h @ [attr_elem nv]) @ map attr_elem nvs"
    using Cons.prems by (subst Cons.IH) simp_all
  also have "\<dots> = add_kids p ([length h] @ [Suc (length h) ..< Suc (length h) + length nvs]) h
                      @ map attr_elem (nv # nvs)"
    using Cons.prems by (simp add: add_kids_append add_kids_add_kids)
  finally show ?case unfolding ks .
qed

lemma eset_all_new:
  "eset_all (length h) sets (h @ [e]) = h @ [e\<lparr>eattrib := foldl (\<lambda>al kv. AList.update (fst kv) (snd kv) al) (eattrib e) sets\<rparr>]"
  by (induction sets arbitrary: e) (simp_all add: eset_def)

lemma sub_with_eq:
  assumes "p < length h"
  shows "sub_with p tg sets attrs h =
     (length h,
      add_kids p [length h] h
      @ [\<lparr> etag = tg, eattrib = foldl (\<lambda>al kv. AList.update (fst kv) (snd kv) al) [] sets,
            ekids = [Suc (length h) ..< Suc (length h) + length attrs] \<rparr>]
      @ map attr_elem attrs)"
proof -
  let ?e = "\<lparr> etag = tg, eattrib = foldl (\<lambda>al kv. AList.update (fst kv) (snd kv) al) [] sets, ekids = [] \<rparr>"
  have 1: "eset_all (length h) sets (add_kids p [length h] (h @ [\<lparr> etag = tg, eattrib = [], ekids = [] \<rparr>]))
        = add_kids p [length h] h @ [?e]"
    using assms eset_all_new[of "add_kids p [length h] h" sets "\<lparr> etag = tg, eattrib = [], ekids = [] \<rparr>"]
    by (simp add: add_kids_append)
  have 2: "add_attributes (length h) attrs (add_kids p [length h] h @ [?e])
        = add_kids (length h) [Suc (length h) ..< Suc (length h) + length attrs] (add_kids p [length h] h @ [?e]) @ map attr_elem attrs"
    by (subst add_attributes_eq) simp_all
  have 3: "add_kids (length h) ks (add_kids p [length h] h @ [?e]) = add_kids p [length h] h @ [?e\<lparr>ekids := ks\<rparr>]" for ks
    using add_kids_length[of p "[length h]" h]
    by (simp add: add_kids_def[of "length h"] list_update_append nth_append del: add_kids_length)
  show ?thesis
    by (simp add: sub_with_def SubElement_eq 1 2 3)
qed

lemmas heap_eval =
  sub_with_eq add_attribute_eq add_attributes_eq SubElement_eq add_kids_def attr_elem_def
  Element_def eset_def

section \<open>Properties of the file registry\<close>

text \<open>
  C6. Registering a second file under a (category, name) key that is already registered
  is not rejected: with the category prefix \<open>MODE-\<close> and the name \<open>Cube\<close>, both calls
  of \<open>AddFile\<close> return \<open>True\<close> and the key is left mapped to the second path. The
  membership test looks the bare name up, while the keys are \<open>pathType + name\<close>.
\<close>

theorem AddFile_duplicate_overwrites:
  "(let r1 = AddFile Map.empty ''MODE-'' (Some ''Cube'') ''Models/a.mdl'';
        r2 = AddFile (snd r1) ''MODE-'' (Some ''Cube'') ''Models/b.mdl''
    in fst r1 \<and> fst r2 \<and>
       FindFile (snd r1) ''MODE-'' (Some ''Cube'') = Some ''Models/a.mdl'' \<and>
       FindFile (snd r2) ''MODE-'' (Some ''Cube'') = Some ''Models/b.mdl'')"
  by (simp add: AddFile_def FindFile_def Let_def)

section \<open>Properties of the scene built from prefabs\<close>






text \<open>
  C9. An instance that names a parent which was never placed is not appended to the
  scene root: the guard tests \<open>instance.objectName in elements\<close>, which holds as soon
  as the instance's own root was stored, and the lookup \<open>elements[instance.parentName]\<close>
  raises \<open>KeyError\<close>. Here the prefab file of the parent Cube is missing and the
  instance Cube.001 is the only one.
\<close>

theorem unplaced_parent_raises:
  "place_instances child_only_disk (\<lambda>m. Inr (''1 2 3'', ''0 -0 0'', ''1 1 1''))
     [child_instance] empty_scene = Inl (KeyError ''Cube'')"
  by (simp add: place_instance_def GetPrefabRoot_def child_only_disk_def child_instance_def
        empty_scene_def cube_prefab_def)

section \<open>Properties of the collision shape\<close>

lemma box_obj_sel:
  "urho_shape_type box_obj = ''Box''" "urho_activate_physics box_obj = True"
  "urho_overwrite_size box_obj = False" "urho_overwrite_offset_position box_obj = False"
  "urho_size_factor box_obj = (1, 1, 1)" "urho_overwrite_model box_obj = False"
  "urho_offset_rotation box_obj = (0, 0, 0)" "urho_lod_level box_obj = 0"
  "urho_collision_margin box_obj = 0.04" "urho_customgeometry_nodeid box_obj = 0"
  "urho_create_subnode box_obj = False" "urho_create_navigable box_obj = False"
  by (simp_all add: box_obj_def default_obj_sel)

lemma sized_obj_sel:
  "urho_shape_type sized_obj = ''Box''" "urho_activate_physics sized_obj = True"
  "urho_overwrite_size sized_obj = True" "urho_overwrite_offset_position sized_obj = False"
  "urho_size sized_obj = (2, 2, 2)" "urho_overwrite_model sized_obj = False"
  "urho_offset_rotation sized_obj = (0, 0, 0)" "urho_lod_level sized_obj = 0"
  "urho_collision_margin sized_obj = 0.04" "urho_customgeometry_nodeid sized_obj = 0"
  "urho_create_subnode sized_obj = False" "urho_create_navigable sized_obj = False"
  by (simp_all add: sized_obj_def box_obj_def default_obj_sel)

lemma body_attributes_default:
  "body_attributes example_utils default_obj = []"
  by (simp add: body_attributes_def opt_attr_def default_obj_sel example_utils_sel example_float_def)

lemma body_attributes_box: "body_attributes example_utils box_obj = []"
  using body_attributes_default by (simp add: body_attributes_def box_obj_def)

lemma body_attributes_sized: "body_attributes example_utils sized_obj = []"
  using body_attributes_default by (simp add: body_attributes_def sized_obj_def box_obj_def)

lemma model_attributes_box:
  "model_attributes example_utils box_obj mf mats = [(''Model'', ''Model;'' @ mf), (''Material'', ''Material'' @ mats)]"
  using model_attributes_default[of mf mats] by (simp add: model_attributes_def box_obj_def)

lemma model_attributes_sized:
  "model_attributes example_utils sized_obj mf mats = [(''Model'', ''Model;'' @ mf), (''Material'', ''Material'' @ mats)]"
  using model_attributes_default[of mf mats] by (simp add: model_attributes_def sized_obj_def box_obj_def)



text \<open>
  With the size overwritten and the offset not, the offset is computed from the locals
  \<open>bbox, x, y, z\<close>, whatever they hold. If they are unassigned, reading \<open>bbox\<close>
  raises \<open>UnboundLocalError\<close>; if they are assigned, no error is raised and the offset
  is computed from the values they hold.
\<close>

lemma offset_of_overwritten_size:
  assumes "doPhysics sOptions" and "urho_activate_physics ob" and "exportMode sOptions \<noteq> ''Props''"
      and "urho_overwrite_size ob" and "\<not> urho_overwrite_offset_position ob"
  shows "(locals s = None \<longrightarrow>
            physics U sOptions currentPass ob m modelFile node s = Inl (UnboundLocalError ''bbox''))
       \<and> (\<forall>bbox x y z. locals s = Some (bbox, x, y, z) \<longrightarrow>
            shape_offset ob (snd (shape_size ob m (locals s))) =
              Inr (if urho_shape_type ob = ''Box'' \<and> y = 0
                   then (fst (max_bb bbox) - x / 2, - 0.5, snd (snd (max_bb bbox)) - z / 2)
                   else (fst (max_bb bbox) - x / 2, fst (snd (max_bb bbox)) - y / 2,
                         snd (snd (max_bb bbox)) - z / 2))
            \<and> (\<exists>s'. physics U sOptions currentPass ob m modelFile node s = Inr s'
                     \<and> locals s' = locals s))"
  using assms by (auto simp: physics_def shape_size_def shape_offset_def Let_def)

lemma physics_options_sel:
  "doIndividualPrefab physics_options = True" "doCollectivePrefab physics_options = True"
  "doScenePrefab physics_options = False" "doPhysics physics_options = True"
  "mergeObjects physics_options = False" "batchComponents physics_options = False"
  "navigation physics_options = False" "createSkybox physics_options = False"
  "skyboxPath physics_options = []" "exportMode physics_options = ''Everything''"
  by (simp_all add: physics_options_def example_options_sel)

text \<open>The first object of a run: the locals are unassigned and the offset cannot be computed.\<close>

lemma offset_of_overwritten_size_first_object:
  "doPhysics physics_options \<and> urho_activate_physics sized_obj \<and>
   exportMode physics_options \<noteq> ''Props'' \<and> urho_overwrite_size sized_obj \<and>
   \<not> urho_overwrite_offset_position sized_obj \<and>
   locals (snd (snd (prologue physics_options ''Scene''))) = None \<and>
   physics example_utils physics_options 1 sized_obj crate_model ''Models/Crate.mdl'' 2
     (snd (snd (prologue physics_options ''Scene''))) = Inl (UnboundLocalError ''bbox'')"
proof -
  have l: "locals (snd (snd (prologue physics_options ''Scene''))) = None"
    by (simp add: prologue_def create_roots_def physics_options_sel Element_def
          cong: let_weak_cong old.prod.case_cong_weak)
  show ?thesis
    using l offset_of_overwritten_size[of physics_options sized_obj
        "snd (snd (prologue physics_options ''Scene''))" example_utils 1 crate_model
        "''Models/Crate.mdl''" 2]
    by (simp add: physics_options_sel sized_obj_sel)
qed


lemmas export_eval =
  UrhoExportPrefabs_def prologue_def create_roots_def epilogue_def write_file_def
  export_object_def open_node_def attach_node_def gather_materials_def physics_def sub_node_def
  navigable_def model_component_def FindFile_def documents_def tree_of.simps Let_def

lemma physics_scene_sel:
  "blenderSceneName physics_scene = ''Scene''"
  "modelsList physics_scene = [plane_model, crate_model]"
  "files physics_scene = [''MODE-Plane'' \<mapsto> ''Models/Plane.mdl'', ''MODE-Crate'' \<mapsto> ''Models/Crate.mdl'']"
  by (simp_all add: physics_scene_def)

lemma plane_crate_sel:
  "name plane_model = ''Plane''" "parentObjectName plane_model = None"
  "type plane_model = ''StaticModel''" "materialsList plane_model = []"
  "boundingBox plane_model = \<lparr> min_bb = (0, 0, 0), max_bb = (2, 0, 4) \<rparr>"
  "name crate_model = ''Crate''" "parentObjectName crate_model = None"
  "type crate_model = ''StaticModel''" "materialsList crate_model = []"
  "boundingBox crate_model = \<lparr> min_bb = (0, 0, 0), max_bb = (8, 8, 8) \<rparr>"
  by (simp_all add: plane_model_def crate_model_def example_model_sel)

lemma sort_physics_scene: "SortModels 10 [plane_model, crate_model] = Inr [plane_model, crate_model]"
  by code_simp

lemma physics_bpy_sel:
  "objects physics_bpy ''Plane'' = Some box_obj" "objects physics_bpy ''Crate'' = Some sized_obj"
  by (simp_all add: physics_bpy_def)

lemma fmt2: "format_d 16777219 = ''16777219''" "format_d 16777220 = ''16777220''" "format_d 16777221 = ''16777221''"
  by (simp_all add: format_d_def digits.simps)

lemma shape_attributes_plane:
  "shape_attributes example_utils box_obj mf (2, 1, 4) (1, - (1/2), 2) =
     [(''Shape Type'', ''Box''), (''Size'', ''2 1 4''), (''Offset Position'', ''1 -0.5 2'')]"
  by (simp add: shape_attributes_def opt_attr_def box_obj_sel example_utils_sel example_float_def)

lemma shape_attributes_crate:
  "shape_attributes example_utils sized_obj mf (2, 2, 2) (1, - (1/2), 2) =
     [(''Shape Type'', ''Box''), (''Size'', ''2 2 2''), (''Offset Position'', ''1 -0.5 2'')]"
  by (simp add: shape_attributes_def opt_attr_def sized_obj_sel example_utils_sel example_float_def)

text \<open>
  C10. An object whose size is overwritten and whose offset is not does not always reach
  the unbound-variable error. Plane comes first and has its size computed from its
  bounding box; Crate has its size overwritten and its offset not. The locals
  \<open>bbox, x, y, z\<close> still hold the values of Plane, so the run ends normally and the
  CollisionShape of Crate carries the Offset Position \<open>1 -0.5 2\<close>, the centre of the
  bounding box of Plane, although the bounding box of Crate goes from \<open>(0,0,0)\<close> to
  \<open>(8,8,8)\<close>.
\<close>

theorem stale_bounding_box_offset:
  "urho_activate_physics sized_obj \<and> urho_overwrite_size sized_obj \<and>
   \<not> urho_overwrite_offset_position sized_obj \<and>
   objects physics_bpy ''Crate'' = Some sized_obj \<and>
   (case UrhoExportPrefabs 10 example_utils physics_bpy physics_scene physics_options True 1 of
      Next s \<Rightarrow> documents s | Return s \<Rightarrow> [] | Raise e \<Rightarrow> []) =
   [(''OBJE-Scene.xml'',
     Xml ''node'' [(''id'', ''16777216'')]
      [Xml ''attribute'' [(''name'', ''Name''), (''value'', ''Scene'')] [],
       Xml ''node'' [(''id'', ''16777217'')]
        [Xml ''attribute'' [(''name'', ''Name''), (''value'', ''Plane'')] [],
         Xml ''component'' [(''type'', ''RigidBody''), (''id'', ''16777216'')] [],
         Xml ''component'' [(''type'', ''CollisionShape''), (''id'', ''16777217'')]
          [Xml ''attribute'' [(''name'', ''Shape Type''), (''value'', ''Box'')] [],
           Xml ''attribute'' [(''name'', ''Size''), (''value'', ''2 1 4'')] [],
           Xml ''attribute'' [(''name'', ''Offset Position''), (''value'', ''1 -0.5 2'')] []],
         Xml ''component'' [(''type'', ''StaticModel''), (''id'', ''16777218'')]
          [Xml ''attribute'' [(''name'', ''Model''), (''value'', ''Model;Models/Plane.mdl'')] [],
           Xml ''attribute'' [(''name'', ''Material''), (''value'', ''Material'')] []]],
       Xml ''node'' [(''id'', ''16777218'')]
        [Xml ''attribute'' [(''name'', ''Name''), (''value'', ''Crate'')] [],
         Xml ''component'' [(''type'', ''RigidBody''), (''id'', ''16777219'')] [],
         Xml ''component'' [(''type'', ''CollisionShape''), (''id'', ''16777220'')]
          [Xml ''attribute'' [(''name'', ''Shape Type''), (''value'', ''Box'')] [],
           Xml ''attribute'' [(''name'', ''Size''), (''value'', ''2 2 2'')] [],
           Xml ''attribute'' [(''name'', ''Offset Position''), (''value'', ''1 -0.5 2'')] []],
         Xml ''component'' [(''type'', ''StaticModel''), (''id'', ''16777221'')]
          [Xml ''attribute'' [(''name'', ''Model''), (''value'', ''Model;Models/Crate.mdl'')] [],
           Xml ''attribute'' [(''name'', ''Material''), (''value'', ''Material'')] []]]])]"
  by (simp add: export_eval sort_physics_scene physics_scene_sel plane_crate_sel physics_bpy_sel
        physics_options_sel example_utils_sel box_obj_sel sized_obj_sel
        body_attributes_box body_attributes_sized model_attributes_box model_attributes_sized
        shape_attributes_plane shape_attributes_crate shape_size_def shape_offset_def
        heap_eval fmt fmt2
        cong: let_weak_cong old.prod.case_cong_weak)

section \<open>Properties of the export loop\<close>

lemma cube_scene_sel:
  "blenderSceneName cube_scene = ''Scene''"
  "modelsList cube_scene = [example_model ''Cube'' None ''StaticModel'',
                            example_model ''Cube.001'' (Some ''Cube'') ''StaticModel'']"
  "files cube_scene = cube_files"
  by (simp_all add: cube_scene_def)

lemma sort_cube_scene:
  "SortModels 10 [example_model ''Cube'' None ''StaticModel'',
                  example_model ''Cube.001'' (Some ''Cube'') ''StaticModel'']
   = Inr [example_model ''Cube'' None ''StaticModel'',
          example_model ''Cube.001'' (Some ''Cube'') ''StaticModel'']"
  by code_simp

lemma export_models_append:
  "export_models body (xs @ ys) s =
     (case export_models body xs s of
        Next s' \<Rightarrow> export_models body ys s' | Return s' \<Rightarrow> Return s' | Raise e \<Rightarrow> Raise e)"
  by (induction xs arbitrary: s) (simp_all split: flow.splits)

lemma export_object_missing_model:
  assumes "mergeObjects sOptions \<or> batchComponents sOptions \<or> objects B (name m) \<noteq> None"
      and "\<not> truthy (FindFile (files uScene) (MODELS U) (Some (name m)))"
  shows "export_object U B sOptions globalOrigin currentPass uScene root' m s = Return s"
  using assms by (auto simp: export_object_def split: option.splits)

text \<open>
  C7. When the mesh file of a model is missing from the registry, \<open>UrhoExportPrefabs\<close>
  returns at that model: the result is the state reached after the models before it in
  the sorted list. No file is written for the model, none of the models after it is
  processed, and neither the collective nor the scene document is written; what the
  earlier models wrote stays written.
\<close>

theorem missing_model_file_returns:
  assumes "prologue sOptions (blenderSceneName uScene) = (sceneRoot, root', s0)"
      and "SortModels limit (modelsList uScene) = Inr (before @ m # rest)"
      and "export_models
             (export_object U B sOptions globalOrigin currentPass
                (uScene\<lparr>modelsList := before @ m # rest\<rparr>) root') before s0 = Next s"
      and "mergeObjects sOptions \<or> batchComponents sOptions \<or> objects B (name m) \<noteq> None"
      and "\<not> truthy (FindFile (files uScene) (MODELS U) (Some (name m)))"
  shows "UrhoExportPrefabs limit U B uScene sOptions globalOrigin currentPass = Return s"
proof -
  have "export_object U B sOptions globalOrigin currentPass
          (uScene\<lparr>modelsList := before @ m # rest\<rparr>) root' m s = Return s"
    using assms(4,5) by (intro export_object_missing_model) simp_all
  then have "export_models
               (export_object U B sOptions globalOrigin currentPass
                  (uScene\<lparr>modelsList := before @ m # rest\<rparr>) root') (before @ m # rest) s0 = Return s"
    using assms(3) by (simp add: export_models_append)
  then show ?thesis
    using assms(1,2) by (simp add: UrhoExportPrefabs_def)
qed

text \<open>
  The mesh file of Cube.001 is missing: the collective pass processes Cube and returns at
  Cube.001, and the collective document is not written.
\<close>

theorem missing_child_file_scenario:
  "prologue example_options (blenderSceneName no_child_scene) =
     (None, 0,
      \<lparr>heap = [\<lparr>etag = ''node'', eattrib = [(''id'', ''16777216'')], ekids = [1]\<rparr>,
               \<lparr>etag = ''attribute'', eattrib = [(''name'', ''Name''), (''value'', ''Scene'')],
                  ekids = []\<rparr>],
        elements = [], nodeID = 16777216, compoID = 16777216, locals = None, written = []\<rparr>) \<and>
   SortModels 10 (modelsList no_child_scene) =
     Inr ([example_model ''Cube'' None ''StaticModel'']
          @ example_model ''Cube.001'' (Some ''Cube'') ''StaticModel'' # []) \<and>
   objects default_bpy ''Cube.001'' \<noteq> None \<and>
   FindFile (files no_child_scene) (MODELS example_utils) (Some ''Cube.001'') = None \<and>
   doCollectivePrefab example_options \<and> \<not> mergeObjects example_options \<and>
   UrhoExportPrefabs 10 example_utils default_bpy no_child_scene example_options True 1 =
     Return
      \<lparr>heap =
         [\<lparr>etag = ''node'', eattrib = [(''id'', ''16777216'')], ekids = [1, 2]\<rparr>,
          \<lparr>etag = ''attribute'', eattrib = [(''name'', ''Name''), (''value'', ''Scene'')],
             ekids = []\<rparr>,
          \<lparr>etag = ''node'', eattrib = [(''id'', ''16777217'')], ekids = [3, 4]\<rparr>,
          \<lparr>etag = ''attribute'', eattrib = [(''name'', ''Name''), (''value'', ''Cube'')],
             ekids = []\<rparr>,
          \<lparr>etag = ''component'',
             eattrib = [(''type'', ''StaticModel''), (''id'', ''16777216'')], ekids = [5, 6]\<rparr>,
          \<lparr>etag = ''attribute'',
             eattrib = [(''name'', ''Model''), (''value'', ''Model;Models/Cube.mdl'')],
             ekids = []\<rparr>,
          \<lparr>etag = ''attribute'', eattrib = [(''name'', ''Material''), (''value'', ''Material'')],
             ekids = []\<rparr>],
        elements = [(''Cube'', 2)], nodeID = 16777217, compoID = 16777217, locals = None,
        written = []\<rparr>"
  (is "?pro \<and> ?sort \<and> ?ob \<and> ?ff \<and> ?c \<and> ?m \<and> ?run")
proof -
  have sel: "blenderSceneName no_child_scene = ''Scene''"
    "modelsList no_child_scene = [example_model ''Cube'' None ''StaticModel'',
                                  example_model ''Cube.001'' (Some ''Cube'') ''StaticModel'']"
    "files no_child_scene = [''MODE-Cube'' \<mapsto> ''Models/Cube.mdl'']"
    by (simp_all add: no_child_scene_def cube_scene_sel)
  have pro: ?pro
    by (simp add: sel prologue_def create_roots_def example_options_sel heap_eval fmt
          cong: let_weak_cong old.prod.case_cong_weak)
  have srt: ?sort
    using sort_cube_scene by (simp add: sel)
  have ob: ?ob by (simp add: default_bpy_def)
  have ff: ?ff by (simp add: sel FindFile_def example_utils_sel)
  have loop: "export_models
        (export_object example_utils default_bpy example_options True 1
           (no_child_scene\<lparr>modelsList := [example_model ''Cube'' None ''StaticModel'']
              @ example_model ''Cube.001'' (Some ''Cube'') ''StaticModel'' # []\<rparr>) 0)
        [example_model ''Cube'' None ''StaticModel'']
        \<lparr>heap = [\<lparr>etag = ''node'', eattrib = [(''id'', ''16777216'')], ekids = [1]\<rparr>,
               \<lparr>etag = ''attribute'', eattrib = [(''name'', ''Name''), (''value'', ''Scene'')],
                  ekids = []\<rparr>],
        elements = [], nodeID = 16777216, compoID = 16777216, locals = None, written = []\<rparr>
      = Next
      \<lparr>heap =
         [\<lparr>etag = ''node'', eattrib = [(''id'', ''16777216'')], ekids = [1, 2]\<rparr>,
          \<lparr>etag = ''attribute'', eattrib = [(''name'', ''Name''), (''value'', ''Scene'')],
             ekids = []\<rparr>,
          \<lparr>etag = ''node'', eattrib = [(''id'', ''16777217'')], ekids = [3, 4]\<rparr>,
          \<lparr>etag = ''attribute'', eattrib = [(''name'', ''Name''), (''value'', ''Cube'')],
             ekids = []\<rparr>,
          \<lparr>etag = ''component'',
             eattrib = [(''type'', ''StaticModel''), (''id'', ''16777216'')], ekids = [5, 6]\<rparr>,
          \<lparr>etag = ''attribute'',
             eattrib = [(''name'', ''Model''), (''value'', ''Model;Models/Cube.mdl'')],
             ekids = []\<rparr>,
          \<lparr>etag = ''attribute'', eattrib = [(''name'', ''Material''), (''value'', ''Material'')],
             ekids = []\<rparr>],
        elements = [(''Cube'', 2)], nodeID = 16777217, compoID = 16777217, locals = None,
        written = []\<rparr>"
    by (simp add: export_eval sel example_options_sel default_bpy_def example_model_sel
          example_utils_sel model_attributes_default default_obj_sel heap_eval fmt
          cong: let_weak_cong old.prod.case_cong_weak)
  have run: ?run
    by (rule missing_model_file_returns[OF pro srt loop])
       (simp_all add: example_model_sel default_bpy_def sel FindFile_def example_utils_sel)
  show ?thesis
    using pro srt ob ff run by (simp add: example_options_sel)
qed

text \<open>
  The claim as stated fails when the mesh file of the first model is missing: the
  individual pass returns at Cube, nothing is written for Cube.001 although its mesh file
  is registered, and the collective document is not written either.
\<close>

theorem missing_first_file_aborts_run:
  "FindFile (files no_cube_scene) (MODELS example_utils) (Some ''Cube'') = None \<and>
   FindFile (files no_cube_scene) (MODELS example_utils) (Some ''Cube.001'')
     = Some ''Models/Cube.001.mdl'' \<and>
   doCollectivePrefab example_options \<and> \<not> mergeObjects example_options \<and>
   UrhoExportPrefabs 10 example_utils default_bpy no_cube_scene example_options True 0 =
     Return
      \<lparr>heap = [\<lparr>etag = ''node'', eattrib = [(''id'', ''16777216'')], ekids = [1]\<rparr>,
               \<lparr>etag = ''attribute'', eattrib = [(''name'', ''Name''), (''value'', ''Scene'')],
                  ekids = []\<rparr>],
        elements = [], nodeID = 16777216, compoID = 16777216, locals = None, written = []\<rparr>"
proof -
  have sel: "blenderSceneName no_cube_scene = ''Scene''"
    "modelsList no_cube_scene = [example_model ''Cube'' None ''StaticModel'',
                                 example_model ''Cube.001'' (Some ''Cube'') ''StaticModel'']"
    "files no_cube_scene = [''MODE-Cube.001'' \<mapsto> ''Models/Cube.001.mdl'']"
    by (simp_all add: no_cube_scene_def cube_scene_sel)
  show ?thesis
    by (simp add: export_eval sel sort_cube_scene example_options_sel default_bpy_def
          example_model_sel example_utils_sel heap_eval fmt
          cong: let_weak_cong old.prod.case_cong_weak)
qed

section \<open>Properties of the node hierarchy and of the IDs\<close>

lemma attach_node_eq:
  assumes "root' < length (heap s)"
      and "\<forall>n a. map_of (elements s) n = Some a \<longrightarrow> a < length (heap s) \<and> n \<in> name ` set models"
  shows "attach_node models root' m s =
           Inr (AList.update (name m) (length (heap s)) (elements s),
                add_kids (expected_parent root' m s) [length (heap s)]
                  (heap s @ [\<lparr> etag = ''node'', eattrib = [], ekids = [] \<rparr>]))"
proof (cases "type m = ''StaticModel'' \<and> truthy (parentObjectName m)
              \<and> map_of (elements s) (the (parentObjectName m)) \<noteq> None")
  case True
  then obtain pa where pa: "map_of (elements s) (the (parentObjectName m)) = Some pa" by auto
  with assms(2) have "the (parentObjectName m) \<in> name ` set models" by blast
  then obtain usm where usm: "find (\<lambda>usm. name usm = the (parentObjectName m)) models = Some usm"
    by (cases "find (\<lambda>usm. name usm = the (parentObjectName m)) models")
       (auto simp: find_None_iff)
  then have nm: "name usm = the (parentObjectName m)"
    by (auto simp: find_Some_iff)
  show ?thesis
    using True pa usm nm
    by (simp add: attach_node_def expected_parent_def SubElement_eq)
next
  case False
  then have "expected_parent root' m s = root'"
    by (auto simp: expected_parent_def split: option.splits)
  with False show ?thesis
    by (auto simp: attach_node_def SubElement_eq)
qed

lemma expected_parent_valid:
  assumes "root' < length (heap s)"
      and "\<forall>n a. map_of (elements s) n = Some a \<longrightarrow> a < length (heap s) \<and> n \<in> name ` set models"
  shows "expected_parent root' m s < length (heap s)"
  using assms by (auto simp: expected_parent_def split: option.splits)

text \<open>
  C3. In the collective pass (any pass but the individual one), in a state whose
  \<open>elements\<close> point into the heap and are keyed by names of models of the list, the
  node of a model is a new element with tag \<open>node\<close>, registered under the model's name,
  and appended to the children of exactly one existing element: the node of its parent
  object when the model itself is a StaticModel whose parent name is set and already in
  \<open>elements\<close>, and the root otherwise.
\<close>

theorem collective_node_parent:
  assumes "currentPass \<noteq> 0"
      and "root' < length (heap s)"
      and "\<forall>n a. map_of (elements s) n = Some a \<longrightarrow> a < length (heap s) \<and> n \<in> name ` set models"
  shows "\<exists>h'. open_node currentPass models root' m s =
                Inr (length (heap s),
                     s\<lparr>heap := h',
                       elements := AList.update (name m) (length (heap s)) (elements s),
                       nodeID := nodeID s + 1\<rparr>)
              \<and> length h' = Suc (length (heap s))
              \<and> etag (h' ! length (heap s)) = ''node''
              \<and> (\<forall>b < length (heap s).
                    ekids (h' ! b) =
                      (if b = expected_parent root' m s
                       then ekids (heap s ! b) @ [length (heap s)] else ekids (heap s ! b)))"
proof -
  let ?a = "length (heap s)"
  let ?h = "eset ?a ''id'' (format_d (nodeID s + 1))
              (add_kids (expected_parent root' m s) [?a]
                 (heap s @ [\<lparr> etag = ''node'', eattrib = [], ekids = [] \<rparr>]))"
  have ep: "expected_parent root' m s < ?a"
    using assms(2,3) by (rule expected_parent_valid)
  have 1: "open_node currentPass models root' m s =
             Inr (?a, s\<lparr>heap := ?h, elements := AList.update (name m) ?a (elements s),
                        nodeID := nodeID s + 1\<rparr>)"
    using assms(1) attach_node_eq[OF assms(2,3), of m]
    by (simp add: open_node_def update_conv')
  have 2: "length ?h = Suc ?a"
    by (simp add: eset_def)
  have 3: "etag (?h ! ?a) = ''node''"
    using ep by (simp add: eset_def add_kids_def nth_append)
  have 4: "\<forall>b < ?a. ekids (?h ! b) =
             (if b = expected_parent root' m s then ekids (heap s ! b) @ [?a] else ekids (heap s ! b))"
    using ep by (auto simp: eset_def add_kids_def nth_append nth_list_update)
  show ?thesis
    using 1 2 3 4 by blast
qed


text \<open>
  The scenario of the specification, in the collective pass: after Cube was exported,
  the node of Cube.001 becomes element 7, a child of the node of Cube (element 2) and
  not of the root (element 0); in the document written, the node of Cube.001 is nested
  in the node of Cube.
\<close>

theorem cube_child_nested_scenario:
  "export_object example_utils default_bpy example_options True 1 cube_scene 0
     (example_model ''Cube'' None ''StaticModel'')
     (snd (snd (prologue example_options ''Scene''))) = Next cube_emitted \<and>
   expected_parent 0 (example_model ''Cube.001'' (Some ''Cube'') ''StaticModel'') cube_emitted = 2 \<and>
   (case open_node 1 (modelsList cube_scene) 0
           (example_model ''Cube.001'' (Some ''Cube'') ''StaticModel'') cube_emitted of
      Inl e \<Rightarrow> False
    | Inr (a, s') \<Rightarrow>
        a = 7 \<and> ekids (heap s' ! 2) = [3, 4, 7] \<and> ekids (heap s' ! 0) = [1, 2]
        \<and> map_of (elements s') ''Cube.001'' = Some 7) \<and>
   (case UrhoExportPrefabs 10 example_utils default_bpy cube_scene example_options True 1 of
      Next s \<Rightarrow> documents s | Return s \<Rightarrow> [] | Raise e \<Rightarrow> []) =
   [(''OBJE-Scene.xml'',
     Xml ''node'' [(''id'', ''16777216'')]
      [Xml ''attribute'' [(''name'', ''Name''), (''value'', ''Scene'')] [],
       Xml ''node'' [(''id'', ''16777217'')]
        [Xml ''attribute'' [(''name'', ''Name''), (''value'', ''Cube'')] [],
         Xml ''component'' [(''type'', ''StaticModel''), (''id'', ''16777216'')]
          [Xml ''attribute'' [(''name'', ''Model''), (''value'', ''Model;Models/Cube.mdl'')] [],
           Xml ''attribute'' [(''name'', ''Material''), (''value'', ''Material'')] []],
         Xml ''node'' [(''id'', ''16777218'')]
          [Xml ''attribute'' [(''name'', ''Name''), (''value'', ''Cube.001'')] [],
           Xml ''component'' [(''type'', ''StaticModel''), (''id'', ''16777217'')]
            [Xml ''attribute'' [(''name'', ''Model''), (''value'', ''Model;Models/Cube.001.mdl'')] [],
             Xml ''attribute'' [(''name'', ''Material''), (''value'', ''Material'')] []]]]])]"
  (is "?first \<and> ?ep \<and> ?open \<and> ?run")
proof -
  let ?child = "example_model ''Cube.001'' (Some ''Cube'') ''StaticModel''"
  have first: ?first
    by (simp add: export_eval cube_emitted_def cube_scene_sel cube_files_def example_options_sel
          default_bpy_def example_model_sel example_utils_sel model_attributes_default
          default_obj_sel heap_eval fmt
          cong: let_weak_cong old.prod.case_cong_weak)
  have ep: ?ep
    by (simp add: expected_parent_def cube_emitted_def example_model_sel)
  have hyp: "\<forall>n a. map_of (elements cube_emitted) n = Some a \<longrightarrow>
               a < length (heap cube_emitted) \<and> n \<in> name ` set (modelsList cube_scene)"
    by (simp add: cube_emitted_def cube_scene_sel example_model_sel)
  have r: "0 < length (heap cube_emitted)" and len: "length (heap cube_emitted) = 7"
    by (simp_all add: cube_emitted_def)
  from collective_node_parent[of 1 0 cube_emitted "modelsList cube_scene" ?child, OF _ r hyp]
  obtain h' where h':
    "open_node 1 (modelsList cube_scene) 0 ?child cube_emitted =
       Inr (length (heap cube_emitted),
            cube_emitted\<lparr>heap := h',
              elements := AList.update (name ?child) (length (heap cube_emitted)) (elements cube_emitted),
              nodeID := nodeID cube_emitted + 1\<rparr>)"
    "\<forall>b < length (heap cube_emitted).
        ekids (h' ! b) =
          (if b = expected_parent 0 ?child cube_emitted
           then ekids (heap cube_emitted ! b) @ [length (heap cube_emitted)]
           else ekids (heap cube_emitted ! b))"
    by auto
  from h'(2) have "ekids (h' ! 2) = ekids (heap cube_emitted ! 2) @ [7]"
                  "ekids (h' ! 0) = ekids (heap cube_emitted ! 0)"
    using ep len by simp_all
  then have k: "ekids (h' ! 2) = [3, 4, 7]" "ekids (h' ! 0) = [1, 2]"
    by (simp_all add: cube_emitted_def)
  have opn: ?open
    using h'(1) k len by (simp add: example_model_sel cube_emitted_def)
  have run: ?run
    by (simp add: export_eval sort_cube_scene cube_scene_sel cube_files_def example_options_sel
          default_bpy_def example_model_sel example_utils_sel model_attributes_default
          default_obj_sel heap_eval fmt
          cong: let_weak_cong old.prod.case_cong_weak)
  show ?thesis using first ep opn run by blast
qed

lemma animated_child_scene_sel:
  "blenderSceneName animated_child_scene = ''Scene''"
  "modelsList animated_child_scene = [example_model ''Cube'' None ''StaticModel'',
                   example_model ''Armature'' (Some ''Cube'') ''AnimatedModel'']"
  "files animated_child_scene =
     [''MODE-Cube'' \<mapsto> ''Models/Cube.mdl'', ''MODE-Armature'' \<mapsto> ''Models/Armature.mdl'']"
  by (simp_all add: animated_child_scene_def)

lemma sort_animated_child_scene:
  "SortModels 10 [example_model ''Cube'' None ''StaticModel'',
                  example_model ''Armature'' (Some ''Cube'') ''AnimatedModel'']
   = Inr [example_model ''Cube'' None ''StaticModel'',
          example_model ''Armature'' (Some ''Cube'') ''AnimatedModel'']"
  by code_simp

text \<open>
  The claim as stated fails for an animated child of a static parent: Cube is a
  StaticModel and has been exported when Armature, whose parent is Cube, is reached, yet
  the node of Armature is attached to the root, next to the node of Cube. The test is on
  the type of the model itself, not of its parent.
\<close>

theorem animated_child_attached_to_root:
  "type (example_model ''Cube'' None ''StaticModel'') = ''StaticModel'' \<and>
   parentObjectName (example_model ''Armature'' (Some ''Cube'') ''AnimatedModel'') = Some ''Cube'' \<and>
   (case UrhoExportPrefabs 10 example_utils default_bpy animated_child_scene example_options True 1 of
      Next s \<Rightarrow> documents s | Return s \<Rightarrow> [] | Raise e \<Rightarrow> []) =
   [(''OBJE-Scene.xml'',
     Xml ''node'' [(''id'', ''16777216'')]
      [Xml ''attribute'' [(''name'', ''Name''), (''value'', ''Scene'')] [],
       Xml ''node'' [(''id'', ''16777217'')]
        [Xml ''attribute'' [(''name'', ''Name''), (''value'', ''Cube'')] [],
         Xml ''component'' [(''type'', ''StaticModel''), (''id'', ''16777216'')]
          [Xml ''attribute'' [(''name'', ''Model''), (''value'', ''Model;Models/Cube.mdl'')] [],
           Xml ''attribute'' [(''name'', ''Material''), (''value'', ''Material'')] []]],
       Xml ''node'' [(''id'', ''16777218'')]
        [Xml ''attribute'' [(''name'', ''Name''), (''value'', ''Armature'')] [],
         Xml ''component'' [(''type'', ''AnimatedModel''), (''id'', ''16777217'')]
          [Xml ''attribute'' [(''name'', ''Model''), (''value'', ''Model;Models/Armature.mdl'')] [],
           Xml ''attribute'' [(''name'', ''Material''), (''value'', ''Material'')] []]]])]"
  by (simp add: export_eval sort_animated_child_scene animated_child_scene_sel
        example_options_sel default_bpy_def example_model_sel example_utils_sel
        model_attributes_default default_obj_sel heap_eval fmt
        cong: let_weak_cong old.prod.case_cong_weak)

text \<open>
  C4. In the individual pass the component ID counter is reset only inside the physics
  block. For two objects without physics the prefab of the first gets the component ID
  16777216 (\<open>0x1000000\<close>) and the prefab of the second 16777217: the IDs of an
  individual prefab depend on the position of its object in the list.
\<close>

theorem individual_component_ids_depend_on_position:
  "(case UrhoExportPrefabs 10 example_utils default_bpy cube_scene example_options True 0 of
      Next s \<Rightarrow> documents s | Return s \<Rightarrow> [] | Raise e \<Rightarrow> []) =
   [(''OBJE-Cube.xml'',
     Xml ''node'' [(''id'', ''16777216'')]
      [Xml ''attribute'' [(''name'', ''Name''), (''value'', ''Cube'')] [],
       Xml ''component'' [(''type'', ''StaticModel''), (''id'', ''16777216'')]
        [Xml ''attribute'' [(''name'', ''Model''), (''value'', ''Model;Models/Cube.mdl'')] [],
         Xml ''attribute'' [(''name'', ''Material''), (''value'', ''Material'')] []]]),
    (''OBJE-Cube.001.xml'',
     Xml ''node'' [(''id'', ''16777216'')]
      [Xml ''attribute'' [(''name'', ''Name''), (''value'', ''Cube.001'')] [],
       Xml ''component'' [(''type'', ''StaticModel''), (''id'', ''16777217'')]
        [Xml ''attribute'' [(''name'', ''Model''), (''value'', ''Model;Models/Cube.001.mdl'')] [],
         Xml ''attribute'' [(''name'', ''Material''), (''value'', ''Material'')] []]]),
    (''OBJE-Scene.xml'',
     Xml ''node'' [(''id'', ''16777216'')]
      [Xml ''attribute'' [(''name'', ''Name''), (''value'', ''Scene'')] []])]"
  by (simp add: export_eval sort_cube_scene cube_scene_sel cube_files_def example_options_sel
        default_bpy_def example_model_sel example_utils_sel model_attributes_default
        default_obj_sel heap_eval fmt
        cong: let_weak_cong old.prod.case_cong_weak)

section \<open>Properties of the attributes written\<close>

lemma in_opt_attr: "((n, v) \<in> set (opt_attr c n' v')) = (c \<and> n = n' \<and> v = v')"
  by (auto simp: opt_attr_def)

lemma model_component_heap:
  assumes "par < length (heap s)"
  shows "heap (model_component U ob m mf mats par s) =
           add_kids par [length (heap s)] (heap s)
           @ [\<lparr> etag = ''component'',
                 eattrib = [(''type'', type m), (''id'', format_d (compoID s))],
                 ekids = [Suc (length (heap s)) ..<
                            Suc (length (heap s)) + length (model_attributes U ob mf mats)] \<rparr>]
           @ map attr_elem (model_attributes U ob mf mats)"
  using assms by (simp add: model_component_def sub_with_eq)

lemma physics_heap:
  assumes "doPhysics sOptions" and "urho_activate_physics ob" and "exportMode sOptions \<noteq> ''Props''"
      and "node < length (heap s)"
      and "physics U sOptions currentPass ob m mf node s = Inr s'"
  shows "take (Suc (length (body_attributes U ob))) (drop (length (heap s)) (heap s')) =
           \<lparr> etag = ''component'',
              eattrib = [(''type'', ''RigidBody''),
                         (''id'', format_d (if currentPass = 0 then 0x1000000 else compoID s))],
              ekids = [Suc (length (heap s)) ..<
                         Suc (length (heap s)) + length (body_attributes U ob)] \<rparr>
           # map attr_elem (body_attributes U ob)"
proof -
  obtain shapeSize locals' where ss: "shape_size ob m (locals s) = (shapeSize, locals')"
    by (cases "shape_size ob m (locals s)")
  with assms obtain shapeOffset where so: "shape_offset ob locals' = Inr shapeOffset"
    by (cases "shape_offset ob locals'") (auto simp: physics_def)
  let ?id = "if currentPass = 0 then 0x1000000 else compoID s"
  let ?h1 = "snd (sub_with node ''component''
               [(''type'', ''RigidBody''), (''id'', format_d ?id)] (body_attributes U ob) (heap s))"
  have h1: "?h1 = add_kids node [length (heap s)] (heap s)
           @ [\<lparr> etag = ''component'',
                 eattrib = [(''type'', ''RigidBody''), (''id'', format_d ?id)],
                 ekids = [Suc (length (heap s)) ..<
                            Suc (length (heap s)) + length (body_attributes U ob)] \<rparr>]
           @ map attr_elem (body_attributes U ob)"
    using assms(4) by (simp add: sub_with_eq)
  have len1: "node < length ?h1" using assms(4) by (simp add: h1)
  have "heap s' = snd (sub_with node ''component''
               [(''type'', ''CollisionShape''), (''id'', format_d (?id + 1))]
               (shape_attributes U ob mf shapeSize shapeOffset) ?h1)"
    using assms ss so by (auto simp: physics_def Let_def)
  also have "\<dots> = add_kids node [length ?h1] ?h1 @
       [\<lparr> etag = ''component'',
           eattrib = [(''type'', ''CollisionShape''), (''id'', format_d (?id + 1))],
           ekids = [Suc (length ?h1) ..<
                      Suc (length ?h1) + length (shape_attributes U ob mf shapeSize shapeOffset)] \<rparr>]
       @ map attr_elem (shape_attributes U ob mf shapeSize shapeOffset)"
    using len1 by (simp only: sub_with_eq[OF len1] snd_conv) simp
  finally have hs': "heap s' = add_kids node [length ?h1] ?h1 @
       [\<lparr> etag = ''component'',
           eattrib = [(''type'', ''CollisionShape''), (''id'', format_d (?id + 1))],
           ekids = [Suc (length ?h1) ..<
                      Suc (length ?h1) + length (shape_attributes U ob mf shapeSize shapeOffset)] \<rparr>]
       @ map attr_elem (shape_attributes U ob mf shapeSize shapeOffset)" .
  have "add_kids node [length ?h1] ?h1 =
          add_kids node [length ?h1] (add_kids node [length (heap s)] (heap s))
           @ [\<lparr> etag = ''component'',
                 eattrib = [(''type'', ''RigidBody''), (''id'', format_d ?id)],
                 ekids = [Suc (length (heap s)) ..<
                            Suc (length (heap s)) + length (body_attributes U ob)] \<rparr>]
           @ map attr_elem (body_attributes U ob)"
    using assms(4) by (subst h1) (simp add: add_kids_append)
  then show ?thesis
    by (simp add: hs')
qed


text \<open>
  C2. Default suppression, as the code has it. The model component (StaticModel or
  AnimatedModel) is created for every exported object and gets one attribute element per
  pair of \<open>model_attributes\<close>; among these, Cast Shadows, LOD Bias, Occlusion LOD Level
  and the view, light, shadow and zone masks occur if and only if the value differs from
  its default (false, 1.0, -1, all bits set), with the value as formatted by the code
  (\<open>true\<close>, \<open>FloatToString\<close>, decimal digits, the packed bit mask). The RigidBody
  component exists only when physics is exported for the object (\<open>doPhysics\<close>, the
  object's \<open>urho_activate_physics\<close>, and an export mode other than \<open>Props\<close>); then it
  gets one attribute element per pair of \<open>body_attributes\<close>, among which Friction and
  Collision Layer occur if and only if the value differs from its default (0.5, bit 0
  only). When physics is not exported for the object, the physics block adds nothing.
\<close>

theorem default_suppression:
  "((''Friction'', v) \<in> set (body_attributes U ob)) =
      (urho_friction ob \<noteq> 0.5 \<and> v = FloatToString U (urho_friction ob)) \<and>
   ((''Collision Layer'', v) \<in> set (body_attributes U ob)) =
      (urho_collision_layer ob \<noteq> [True, False, False, False, False, False, False, False]
       \<and> v = format_d (GetBitMask (urho_collision_layer ob))) \<and>
   ((''Cast Shadows'', v) \<in> set (model_attributes U ob mf mats)) =
      (urho_cast_shadows ob \<noteq> False \<and> v = ''true'') \<and>
   ((''LOD Bias'', v) \<in> set (model_attributes U ob mf mats)) =
      (urho_lod_bias ob \<noteq> 1 \<and> v = FloatToString U (urho_lod_bias ob)) \<and>
   ((''Occlusion LOD Level'', v) \<in> set (model_attributes U ob mf mats)) =
      (urho_occlusion_lod_level ob \<noteq> - 1 \<and> v = format_d (urho_occlusion_lod_level ob)) \<and>
   ((''View Mask'', v) \<in> set (model_attributes U ob mf mats)) =
      (urho_view_mask ob \<noteq> replicate 8 True \<and> v = format_d (GetBitMask (urho_view_mask ob))) \<and>
   ((''Light Mask'', v) \<in> set (model_attributes U ob mf mats)) =
      (urho_light_mask ob \<noteq> replicate 8 True \<and> v = format_d (GetBitMask (urho_light_mask ob))) \<and>
   ((''Shadow Mask'', v) \<in> set (model_attributes U ob mf mats)) =
      (urho_shadow_mask ob \<noteq> replicate 8 True \<and> v = format_d (GetBitMask (urho_shadow_mask ob))) \<and>
   ((''Zone Mask'', v) \<in> set (model_attributes U ob mf mats)) =
      (urho_zone_mask ob \<noteq> replicate 8 True \<and> v = format_d (GetBitMask (urho_zone_mask ob))) \<and>
   (par < length (heap s) \<longrightarrow>
      heap (model_component U ob m mf mats par s) =
        add_kids par [length (heap s)] (heap s)
        @ [\<lparr> etag = ''component'',
              eattrib = [(''type'', type m), (''id'', format_d (compoID s))],
              ekids = [Suc (length (heap s)) ..<
                         Suc (length (heap s)) + length (model_attributes U ob mf mats)] \<rparr>]
        @ map attr_elem (model_attributes U ob mf mats)) \<and>
   (\<not> (doPhysics sOptions \<and> urho_activate_physics ob \<and> exportMode sOptions \<noteq> ''Props'') \<longrightarrow>
      physics U sOptions currentPass ob m mf node s = Inr s) \<and>
   (doPhysics sOptions \<and> urho_activate_physics ob \<and> exportMode sOptions \<noteq> ''Props''
    \<and> node < length (heap s) \<and> physics U sOptions currentPass ob m mf node s = Inr s' \<longrightarrow>
      take (Suc (length (body_attributes U ob))) (drop (length (heap s)) (heap s')) =
        \<lparr> etag = ''component'',
           eattrib = [(''type'', ''RigidBody''),
                      (''id'', format_d (if currentPass = 0 then 0x1000000 else compoID s))],
           ekids = [Suc (length (heap s)) ..<
                      Suc (length (heap s)) + length (body_attributes U ob)] \<rparr>
        # map attr_elem (body_attributes U ob))"
proof -
  have body: "((''Friction'', v) \<in> set (body_attributes U ob)) =
      (urho_friction ob \<noteq> 0.5 \<and> v = FloatToString U (urho_friction ob))"
    "((''Collision Layer'', v) \<in> set (body_attributes U ob)) =
      (urho_collision_layer ob \<noteq> [True, False, False, False, False, False, False, False]
       \<and> v = format_d (GetBitMask (urho_collision_layer ob)))"
    by (simp_all add: body_attributes_def in_opt_attr)
  have model: "((''Cast Shadows'', v) \<in> set (model_attributes U ob mf mats)) =
      (urho_cast_shadows ob \<noteq> False \<and> v = ''true'')"
    "((''LOD Bias'', v) \<in> set (model_attributes U ob mf mats)) =
      (urho_lod_bias ob \<noteq> 1 \<and> v = FloatToString U (urho_lod_bias ob))"
    "((''Occlusion LOD Level'', v) \<in> set (model_attributes U ob mf mats)) =
      (urho_occlusion_lod_level ob \<noteq> - 1 \<and> v = format_d (urho_occlusion_lod_level ob))"
    "((''View Mask'', v) \<in> set (model_attributes U ob mf mats)) =
      (urho_view_mask ob \<noteq> replicate 8 True \<and> v = format_d (GetBitMask (urho_view_mask ob)))"
    "((''Light Mask'', v) \<in> set (model_attributes U ob mf mats)) =
      (urho_light_mask ob \<noteq> replicate 8 True \<and> v = format_d (GetBitMask (urho_light_mask ob)))"
    "((''Shadow Mask'', v) \<in> set (model_attributes U ob mf mats)) =
      (urho_shadow_mask ob \<noteq> replicate 8 True \<and> v = format_d (GetBitMask (urho_shadow_mask ob)))"
    "((''Zone Mask'', v) \<in> set (model_attributes U ob mf mats)) =
      (urho_zone_mask ob \<noteq> replicate 8 True \<and> v = format_d (GetBitMask (urho_zone_mask ob)))"
    by (simp_all add: model_attributes_def in_opt_attr)
  have gate: "\<not> (doPhysics sOptions \<and> urho_activate_physics ob \<and> exportMode sOptions \<noteq> ''Props'') \<longrightarrow>
      physics U sOptions currentPass ob m mf node s = Inr s"
    by (simp add: physics_def)
  have mc: "par < length (heap s) \<longrightarrow>
      heap (model_component U ob m mf mats par s) =
        add_kids par [length (heap s)] (heap s)
        @ [\<lparr> etag = ''component'',
              eattrib = [(''type'', type m), (''id'', format_d (compoID s))],
              ekids = [Suc (length (heap s)) ..<
                         Suc (length (heap s)) + length (model_attributes U ob mf mats)] \<rparr>]
        @ map attr_elem (model_attributes U ob mf mats)"
    by (intro impI) (rule model_component_heap)
  have ph: "doPhysics sOptions \<and> urho_activate_physics ob \<and> exportMode sOptions \<noteq> ''Props''
    \<and> node < length (heap s) \<and> physics U sOptions currentPass ob m mf node s = Inr s' \<longrightarrow>
      take (Suc (length (body_attributes U ob))) (drop (length (heap s)) (heap s')) =
        \<lparr> etag = ''component'',
           eattrib = [(''type'', ''RigidBody''),
                      (''id'', format_d (if currentPass = 0 then 0x1000000 else compoID s))],
           ekids = [Suc (length (heap s)) ..<
                      Suc (length (heap s)) + length (body_attributes U ob)] \<rparr>
        # map attr_elem (body_attributes U ob)"
    by (intro impI, elim conjE) (rule physics_heap)
  show ?thesis
    by (intro conjI; fact)
qed

lemma friction_obj_sel:
  "urho_friction friction_obj = 0.7" "urho_activate_physics friction_obj = False"
  "urho_create_subnode friction_obj = False" "urho_create_navigable friction_obj = False"
  "urho_friction slippery_obj = 0.7" "urho_activate_physics slippery_obj = True"
  "urho_overwrite_size slippery_obj = False" "urho_overwrite_offset_position slippery_obj = False"
  "urho_shape_type slippery_obj = ''TriangleMesh''" "urho_size_factor slippery_obj = (1, 1, 1)"
  by (simp_all add: friction_obj_def slippery_obj_def default_obj_sel)

lemma model_attributes_friction:
  "model_attributes example_utils friction_obj mf mats =
     [(''Model'', ''Model;'' @ mf), (''Material'', ''Material'' @ mats)]"
  "model_attributes example_utils slippery_obj mf mats =
     [(''Model'', ''Model;'' @ mf), (''Material'', ''Material'' @ mats)]"
  using model_attributes_default[of mf mats]
  by (simp_all add: model_attributes_def friction_obj_def slippery_obj_def)

lemma body_attributes_slippery:
  "body_attributes example_utils slippery_obj = [(''Friction'', ''0.7'')]"
proof -
  have "body_attributes example_utils slippery_obj =
          opt_attr (urho_friction slippery_obj \<noteq> 0.5) ''Friction''
            (FloatToString example_utils (urho_friction slippery_obj))"
    using body_attributes_default
    by (simp add: body_attributes_def slippery_obj_def friction_obj_def opt_attr_def
          split: if_splits)
  then show ?thesis
    by (simp add: opt_attr_def friction_obj_sel example_utils_sel example_float_def)
qed

text \<open>
  An object with friction 0.7: with physics exported for it, the RigidBody component is
  the first element added by the physics block and its only attribute is Friction with
  the value \<open>0.7\<close>; every model attribute is at its default, so the model component has
  the attributes Model and Material only; without \<open>doPhysics\<close> the physics block leaves
  the state as it is.
\<close>

theorem default_suppression_friction_scenario:
  "urho_friction slippery_obj \<noteq> 0.5 \<and>
   (''Friction'', ''0.7'') \<in> set (body_attributes example_utils slippery_obj) \<and>
   (''Friction'', ''0.5'') \<notin> set (body_attributes example_utils slippery_obj) \<and>
   urho_cast_shadows slippery_obj = False \<and>
   (''Cast Shadows'', ''true'') \<notin> set (model_attributes example_utils slippery_obj ''Models/Cube.mdl'' []) \<and>
   heap (model_component example_utils slippery_obj (example_model ''Cube'' None ''StaticModel'')
           ''Models/Cube.mdl'' [] 2 cube_emitted) =
     add_kids 2 [7] (heap cube_emitted)
     @ [\<lparr> etag = ''component'', eattrib = [(''type'', ''StaticModel''), (''id'', ''16777217'')],
           ekids = [8, 9] \<rparr>,
        attr_elem (''Model'', ''Model;Models/Cube.mdl''), attr_elem (''Material'', ''Material'')] \<and>
   physics example_utils example_options 1 slippery_obj (example_model ''Cube'' None ''StaticModel'')
     ''Models/Cube.mdl'' 2 cube_emitted = Inr cube_emitted \<and>
   (case physics example_utils physics_options 1 slippery_obj
           (example_model ''Cube'' None ''StaticModel'') ''Models/Cube.mdl'' 2 cube_emitted of
      Inl e \<Rightarrow> False
    | Inr s' \<Rightarrow>
        take 2 (drop 7 (heap s')) =
          [\<lparr> etag = ''component'', eattrib = [(''type'', ''RigidBody''), (''id'', ''16777217'')],
              ekids = [8] \<rparr>,
           attr_elem (''Friction'', ''0.7'')])"
  (is "?f \<and> ?in \<and> ?out \<and> ?cs \<and> ?nocs \<and> ?mc \<and> ?off \<and> ?on")
proof -
  let ?m = "example_model ''Cube'' None ''StaticModel''"
  note ds = default_suppression[of _ example_utils slippery_obj "''Models/Cube.mdl''" "[]" 2
      cube_emitted ?m _ 1 2]
  have len: "length (heap cube_emitted) = 7" and cid: "compoID cube_emitted = 16777217"
    by (simp_all add: cube_emitted_def)
  have f: ?f by (simp add: friction_obj_sel)
  have "?in \<and> ?out"
    using ds[of "''0.7''" example_options cube_emitted] ds[of "''0.5''" example_options cube_emitted]
    by (simp add: friction_obj_sel example_utils_sel example_float_def)
  moreover have cs: ?cs by (simp add: slippery_obj_def friction_obj_def default_obj_sel)
  moreover have ?nocs
    using ds[of "''true''" example_options cube_emitted] cs by simp
  moreover have ?mc
    using ds[of "''x''" example_options cube_emitted] len cid
    by (simp add: model_attributes_friction example_model_sel fmt)
  moreover have ?off
    using ds[of "''x''" example_options cube_emitted] by (simp add: example_options_sel)
  moreover have ?on
  proof -
    obtain s' where s': "physics example_utils physics_options 1 slippery_obj ?m
                           ''Models/Cube.mdl'' 2 cube_emitted = Inr s'"
      by (simp add: physics_def physics_options_sel friction_obj_sel shape_size_def
            shape_offset_def Let_def)
    from ds[of "''x''" physics_options s'] s' len cid
    have "take 2 (drop 7 (heap s')) =
          [\<lparr> etag = ''component'', eattrib = [(''type'', ''RigidBody''), (''id'', ''16777217'')],
              ekids = [8] \<rparr>,
           attr_elem (''Friction'', ''0.7'')]"
      by (simp add: physics_options_sel friction_obj_sel body_attributes_slippery fmt numeral_2_eq_2)
    with s' show ?thesis by simp
  qed
  ultimately show ?thesis using f by blast
qed

lemma friction_bpy_sel: "objects friction_bpy n = Some friction_obj"
  by (simp add: friction_bpy_def)

text \<open>
  The claim as stated fails for Friction: the objects have friction 0.7, not the default
  0.5, but physics is not activated for them, so no RigidBody component and no Friction
  attribute is written, although physics is exported for the scene.
\<close>

theorem friction_without_physics_not_written:
  "urho_friction friction_obj \<noteq> 0.5 \<and>
   objects friction_bpy ''Cube'' = Some friction_obj \<and>
   objects friction_bpy ''Cube.001'' = Some friction_obj \<and>
   doPhysics physics_options \<and>
   (case UrhoExportPrefabs 10 example_utils friction_bpy cube_scene physics_options True 1 of
      Next s \<Rightarrow> documents s | Return s \<Rightarrow> [] | Raise e \<Rightarrow> []) =
   [(''OBJE-Scene.xml'',
     Xml ''node'' [(''id'', ''16777216'')]
      [Xml ''attribute'' [(''name'', ''Name''), (''value'', ''Scene'')] [],
       Xml ''node'' [(''id'', ''16777217'')]
        [Xml ''attribute'' [(''name'', ''Name''), (''value'', ''Cube'')] [],
         Xml ''component'' [(''type'', ''StaticModel''), (''id'', ''16777216'')]
          [Xml ''attribute'' [(''name'', ''Model''), (''value'', ''Model;Models/Cube.mdl'')] [],
           Xml ''attribute'' [(''name'', ''Material''), (''value'', ''Material'')] []],
         Xml ''node'' [(''id'', ''16777218'')]
          [Xml ''attribute'' [(''name'', ''Name''), (''value'', ''Cube.001'')] [],
           Xml ''component'' [(''type'', ''StaticModel''), (''id'', ''16777217'')]
            [Xml ''attribute'' [(''name'', ''Model''), (''value'', ''Model;Models/Cube.001.mdl'')] [],
             Xml ''attribute'' [(''name'', ''Material''), (''value'', ''Material'')] []]]]])]"
  by (simp add: export_eval sort_cube_scene cube_scene_sel cube_files_def physics_options_sel
        friction_bpy_sel example_model_sel example_utils_sel model_attributes_friction
        friction_obj_sel heap_eval fmt
        cong: let_weak_cong old.prod.case_cong_weak)

section \<open>Properties of the hierarchical sorting\<close>

subsection \<open>The tree after a sequence of pushes\<close>

lemma node_of_ensure [simp]: "node_of (ensure k t) n = node_of t n"
  by (auto simp: node_of_def ensure_def split: option.splits if_splits)

lemma keys_ensure:
  "map fst (ensure k t) = (if k \<in> set (map fst t) then map fst t else map fst t @ [k])"
  by (auto simp: ensure_def map_of_eq_None_iff)

lemma node_of_update [simp]: "node_of (AList.update k v t) n = (if n = k then v else node_of t n)"
  by (simp add: node_of_def update_conv')

text \<open>The effect of one push on the keys, the parents and the children.\<close>

lemma par_push:
  "parent_of (push (n, po) t) m =
     (if m = n \<and> links (n, po) then po else parent_of t m)"
  by (auto simp: push_def parent_of_def links_def Let_def split: option.splits)

lemma kids_push:
  "kids_of (push (n, po) t) q =
     (if links (n, po) \<and> po = Some q then kids_of t q @ [n] else kids_of t q)"
  by (auto simp: push_def kids_of_def links_def Let_def split: option.splits)

lemma keys_push:
  "map fst (push (n, po) t) =
     (let ks = map fst t;
          ks1 = (if n \<in> set ks then ks else ks @ [n])
      in case po of
           None \<Rightarrow> ks1
         | Some p \<Rightarrow> if p = [] then ks1 else if p \<in> set ks1 then ks1 else ks1 @ [p])"
  by (simp add: push_def Let_def update_keys keys_ensure split: option.splits)

lemma set_keys_push:
  "set (map fst (push (n, po) t)) =
     set (map fst t) \<union> {n} \<union> (case po of None \<Rightarrow> {} | Some p \<Rightarrow> if p \<noteq> [] then {p} else {})"
  unfolding keys_push by (auto simp: Let_def split: option.splits)

lemma distinct_keys_push:
  "distinct (map fst t) \<Longrightarrow> distinct (map fst (push item t))"
  by (cases item) (auto simp: keys_push Let_def split: option.splits)

lemma push_all_snoc: "push_all (items @ [item]) = push item (push_all items)"
  by (simp add: push_all_def)

lemma distinct_keys_push_all: "distinct (map fst (push_all items))"
  by (induction items rule: rev_induct) (simp_all add: push_all_snoc distinct_keys_push, simp add: push_all_def)

lemma keys_push_all: "set (map fst (push_all items)) = mentioned items"
proof (induction items rule: rev_induct)
  case Nil
  then show ?case by (simp add: push_all_def mentioned_def)
next
  case (snoc item items)
  obtain n po where item: "item = (n, po)" by (cases item)
  have "mentioned (items @ [(n, po)]) =
          mentioned items \<union> {n} \<union> (case po of None \<Rightarrow> {} | Some p \<Rightarrow> if p \<noteq> [] then {p} else {})"
    by (auto simp: mentioned_def split: option.splits)
  with snoc show ?case
    by (simp only: item push_all_snoc set_keys_push)
qed

lemma parent_rel_snoc:
  "parent_rel (items @ [(n, po)]) =
     parent_rel items \<union> (if links (n, po) then {(the po, n)} else {})"
  by (auto simp: parent_rel_def links_def split: option.splits)

lemma parent_rel_names: "(p, n) \<in> parent_rel items \<Longrightarrow> n \<in> set (map fst items)"
  by (force simp: parent_rel_def)

lemma par_push_all:
  assumes "distinct (map fst items)"
  shows "(parent_of (push_all items) n = Some p) = ((p, n) \<in> parent_rel items)"
  using assms
proof (induction items arbitrary: n p rule: rev_induct)
  case Nil
  then show ?case by (simp add: push_all_def parent_of_def node_of_def Node_def parent_rel_def)
next
  case (snoc item items)
  obtain m po where item: "item = (m, po)" by (cases item)
  from snoc.prems item have d: "distinct (map fst items)" and m: "m \<notin> set (map fst items)"
    by simp_all
  have IH: "\<And>n p. (parent_of (push_all items) n = Some p) = ((p, n) \<in> parent_rel items)"
    using snoc.IH[OF d] .
  have nom: "\<And>q. (q, m) \<notin> parent_rel items"
    using m parent_rel_names by blast
  show ?case
  proof (cases "n = m")
    case True
    show ?thesis
    proof (cases "links (m, po)")
      case l: True
      then obtain p0 where po: "po = Some p0" by (auto simp: links_def split: option.splits)
      show ?thesis
        using True l po nom by (auto simp: item push_all_snoc par_push parent_rel_snoc)
    next
      case False
      then show ?thesis
        using True nom IH[of m p] by (simp add: item push_all_snoc par_push parent_rel_snoc)
    qed
  next
    case False
    then show ?thesis
      using IH[of n p] by (auto simp: item push_all_snoc par_push parent_rel_snoc)
  qed
qed

lemma kids_push_all:
  assumes "distinct (map fst items)"
  shows "kids_of (push_all items) q = filter (\<lambda>n. (q, n) \<in> parent_rel items) (map fst items)"
  using assms
proof (induction items arbitrary: q rule: rev_induct)
  case Nil
  then show ?case by (simp add: push_all_def kids_of_def node_of_def Node_def)
next
  case (snoc item items)
  obtain m po where item: "item = (m, po)" by (cases item)
  from snoc.prems item have d: "distinct (map fst items)" and m: "m \<notin> set (map fst items)"
    by simp_all
  have IH: "kids_of (push_all items) q = filter (\<lambda>n. (q, n) \<in> parent_rel items) (map fst items)"
    using snoc.IH[OF d] .
  have old: "filter (\<lambda>n. (q, n) \<in> parent_rel (items @ [(m, po)])) (map fst items)
             = filter (\<lambda>n. (q, n) \<in> parent_rel items) (map fst items)"
    using m by (intro filter_cong) (auto simp: parent_rel_snoc)
  have new: "((q, m) \<in> parent_rel (items @ [(m, po)])) = (links (m, po) \<and> po = Some q)"
    using m parent_rel_names[of q m items]
    by (auto simp: parent_rel_snoc links_def split: option.splits)
  show ?case
    by (auto simp: item push_all_snoc kids_push IH old new)
qed

subsection \<open>The traversal of a forest\<close>

lemma forestD:
  assumes "forest t R"
  shows "finite R" "acyclic R" "distinct (map fst t)"
    "\<And>p n. (p, n) \<in> R \<Longrightarrow> p \<in> set (map fst t)"
    "\<And>p n. (p, n) \<in> R \<Longrightarrow> n \<in> set (map fst t)"
    "\<And>n p. (parent_of t n = Some p) = ((p, n) \<in> R)"
    "\<And>p. set (kids_of t p) = {n. (p, n) \<in> R}"
    "\<And>p. distinct (kids_of t p)"
  using assms unfolding forest_def by blast+

lemma forest_unique_parent:
  "forest t R \<Longrightarrow> (p, n) \<in> R \<Longrightarrow> (q, n) \<in> R \<Longrightarrow> p = q"
  using forestD(6)[of t R n] by (metis option.inject)

lemma None_in_image: "(None \<in> f ` set cs) = (\<exists>c \<in> set cs. f c = None)"
  by (induction cs) auto

lemma node_to_list_Suc:
  "node_to_list (Suc k) t n =
     (if \<forall>c \<in> set (kids_of t n). node_to_list k t c \<noteq> None
      then Some (n # concat (map (\<lambda>c. the (node_to_list k t c)) (kids_of t n)))
      else None)"
  by (simp add: kids_of_def Let_def None_in_image comp_def del: not_None_eq)

declare node_to_list.simps(2) [simp del]

lemma node_to_list_step:
  "node_to_list k t n = Some xs \<Longrightarrow> node_to_list (Suc k) t n = Some xs"
proof (induction k arbitrary: n xs)
  case 0
  then show ?case by simp
next
  case (Suc k)
  from Suc.prems have all: "\<forall>c \<in> set (kids_of t n). node_to_list k t c \<noteq> None"
    and xs: "xs = n # concat (map (\<lambda>c. the (node_to_list k t c)) (kids_of t n))"
    by (auto simp: node_to_list_Suc simp del: not_None_eq split: if_splits)
  have eq: "\<And>c. c \<in> set (kids_of t n) \<Longrightarrow> node_to_list (Suc k) t c = node_to_list k t c"
    using all Suc.IH by fastforce
  have A: "\<forall>c \<in> set (kids_of t n). node_to_list (Suc k) t c \<noteq> None"
    using all eq by simp
  have B: "map (\<lambda>c. the (node_to_list (Suc k) t c)) (kids_of t n)
         = map (\<lambda>c. the (node_to_list k t c)) (kids_of t n)"
    using eq by (intro map_cong) simp_all
  show ?case
    unfolding node_to_list_Suc[of "Suc k"] xs B using A by (simp del: not_None_eq)
qed

lemma node_to_list_mono:
  "k \<le> k' \<Longrightarrow> node_to_list k t n = Some xs \<Longrightarrow> node_to_list k' t n = Some xs"
  by (induction rule: dec_induct) (auto intro: node_to_list_step)

lemma uniform_fuel:
  "(\<And>c. c \<in> set cs \<Longrightarrow> \<exists>k. node_to_list k t c \<noteq> None) \<Longrightarrow>
   \<exists>K. \<forall>c \<in> set cs. node_to_list K t c \<noteq> None"
proof (induction cs)
  case Nil
  then show ?case by simp
next
  case (Cons c cs)
  then obtain K where K: "\<forall>c \<in> set cs. node_to_list K t c \<noteq> None" by auto
  have "\<exists>k. node_to_list k t c \<noteq> None" by (rule Cons.prems) simp
  then obtain k where k: "node_to_list k t c \<noteq> None" ..
  have up: "\<And>j c'. node_to_list j t c' \<noteq> None \<Longrightarrow> j \<le> max k K \<Longrightarrow>
              node_to_list (max k K) t c' \<noteq> None"
    using node_to_list_mono by fastforce
  have "\<forall>c' \<in> set (c # cs). node_to_list (max k K) t c' \<noteq> None"
    using K k up[of k c] up[of K] by (auto simp del: not_None_eq)
  then show ?case by blast
qed

lemma node_to_list_terminates:
  assumes "forest t R"
  shows "\<exists>k. node_to_list k t n \<noteq> None"
proof -
  have "wf (R\<inverse>)"
    using forestD(1,2)[OF assms] by (simp add: finite_acyclic_wf_converse)
  then show ?thesis
  proof (induction n rule: wf_induct_rule)
    case (less n)
    have "\<And>c. c \<in> set (kids_of t n) \<Longrightarrow> \<exists>k. node_to_list k t c \<noteq> None"
      using less forestD(7)[OF assms, of n] by auto
    then obtain K where "\<forall>c \<in> set (kids_of t n). node_to_list K t c \<noteq> None"
      using uniform_fuel by blast
    then have "node_to_list (Suc K) t n \<noteq> None"
      by (simp add: node_to_list_Suc del: not_None_eq)
    then show ?case by blast
  qed
qed

subsection \<open>Subtrees of a forest\<close>

lemma comparable:
  assumes u: "\<And>p q n. (p, n) \<in> R \<Longrightarrow> (q, n) \<in> R \<Longrightarrow> p = q"
  shows "(a, d) \<in> R\<^sup>* \<Longrightarrow> (b, d) \<in> R\<^sup>* \<Longrightarrow> (a, b) \<in> R\<^sup>* \<or> (b, a) \<in> R\<^sup>*"
proof (induction rule: rtrancl_induct)
  case base
  then show ?case by simp
next
  case (step y z)
  from step.prems show ?case
  proof (cases rule: rtranclE)
    case base
    then show ?thesis using step.hyps by auto
  next
    case (step y')
    then have "y' = y" using u step.hyps(2) by blast
    then show ?thesis using step step.IH by blast
  qed
qed

lemma no_sibling_path:
  assumes "forest t R" "(n, c1) \<in> R" "(n, c2) \<in> R" "c1 \<noteq> c2"
  shows "(c1, c2) \<notin> R\<^sup>*"
proof
  assume "(c1, c2) \<in> R\<^sup>*"
  then show False
  proof (cases rule: rtranclE)
    case base
    then show ?thesis using assms(4) by simp
  next
    case (step y)
    then have "y = n" using forest_unique_parent[OF assms(1)] assms(3) by blast
    then have "(n, n) \<in> R\<^sup>+" using step(1) assms(2) by (simp add: rtrancl_into_trancl2)
    then show ?thesis using forestD(2)[OF assms(1)] by (simp add: acyclic_def)
  qed
qed

lemma disjoint_siblings:
  assumes "forest t R" "(n, c1) \<in> R" "(n, c2) \<in> R" "c1 \<noteq> c2"
  shows "{d. (c1, d) \<in> R\<^sup>*} \<inter> {d. (c2, d) \<in> R\<^sup>*} = {}"
proof -
  have "(c1, c2) \<notin> R\<^sup>*"
    by (rule no_sibling_path[OF assms])
  moreover have "(c2, c1) \<notin> R\<^sup>*"
    by (rule no_sibling_path[OF assms(1,3,2) assms(4)[symmetric]])
  ultimately show ?thesis
    using comparable[of R c1 _ c2] forest_unique_parent[OF assms(1)] by blast
qed

lemma no_root_path:
  assumes "forest t R" "parent_of t r2 = None" "r1 \<noteq> r2"
  shows "(r1, r2) \<notin> R\<^sup>*"
proof
  assume "(r1, r2) \<in> R\<^sup>*"
  then show False
  proof (cases rule: rtranclE)
    case base
    then show ?thesis using assms(3) by simp
  next
    case (step y)
    then show ?thesis using forestD(6)[OF assms(1), of r2 y] assms(2) by simp
  qed
qed

lemma disjoint_roots:
  assumes "forest t R" "parent_of t r1 = None" "parent_of t r2 = None" "r1 \<noteq> r2"
  shows "{d. (r1, d) \<in> R\<^sup>*} \<inter> {d. (r2, d) \<in> R\<^sup>*} = {}"
proof -
  have "(r1, r2) \<notin> R\<^sup>*"
    by (rule no_root_path[OF assms(1,3,4)])
  moreover have "(r2, r1) \<notin> R\<^sup>*"
    by (rule no_root_path[OF assms(1,2) assms(4)[symmetric]])
  ultimately show ?thesis
    using comparable[of R r1 _ r2] forest_unique_parent[OF assms(1)] by blast
qed

lemma child_not_above:
  assumes "forest t R" "(n, c) \<in> R"
  shows "(c, n) \<notin> R\<^sup>*"
proof
  assume "(c, n) \<in> R\<^sup>*"
  then have "(n, n) \<in> R\<^sup>+" using assms(2) by (simp add: rtrancl_into_trancl2)
  then show False using forestD(2)[OF assms(1)] by (simp add: acyclic_def)
qed

lemma node_to_list_kids:
  assumes "node_to_list (Suc k) t n = Some xs"
  shows "xs = n # concat (map (\<lambda>c. the (node_to_list k t c)) (kids_of t n))"
    and "\<And>c. c \<in> set (kids_of t n) \<Longrightarrow> \<exists>ys. node_to_list k t c = Some ys"
  using assms by (auto simp: node_to_list_Suc split: if_splits)

lemma node_to_list_set:
  assumes f: "forest t R"
  shows "node_to_list k t n = Some xs \<Longrightarrow> set xs = {d. (n, d) \<in> R\<^sup>*}"
proof (induction k arbitrary: n xs)
  case 0
  then show ?case by simp
next
  case (Suc k)
  note nk = node_to_list_kids[OF Suc.prems]
  have sub: "\<And>c. c \<in> set (kids_of t n) \<Longrightarrow>
               set (the (node_to_list k t c)) = {d. (c, d) \<in> R\<^sup>*}"
    using nk(2) Suc.IH by fastforce
  have "set xs = insert n (\<Union>c \<in> set (kids_of t n). {d. (c, d) \<in> R\<^sup>*})"
    unfolding nk(1) using sub by simp
  also have "\<dots> = insert n (\<Union>c \<in> {c. (n, c) \<in> R}. {d. (c, d) \<in> R\<^sup>*})"
    using forestD(7)[OF f] by simp
  also have "\<dots> = {d. (n, d) \<in> R\<^sup>*}"
    by (auto intro: converse_rtrancl_into_rtrancl elim: converse_rtranclE)
  finally show ?case .
qed

lemma distinct_concat_map:
  assumes "distinct cs"
    and "\<And>c. c \<in> set cs \<Longrightarrow> distinct (f c)"
    and "\<And>c c'. c \<in> set cs \<Longrightarrow> c' \<in> set cs \<Longrightarrow> c \<noteq> c' \<Longrightarrow> set (f c) \<inter> set (f c') = {}"
  shows "distinct (concat (map f cs))"
  using assms
proof (induction cs)
  case Nil
  then show ?case by simp
next
  case (Cons c cs)
  have "distinct cs" using Cons.prems(1) by simp
  then have "distinct (concat (map f cs))"
  proof (rule Cons.IH)
    fix c' assume "c' \<in> set cs"
    then show "distinct (f c')" using Cons.prems(2)[of c'] by simp
  next
    fix a b assume "a \<in> set cs" "b \<in> set cs" "a \<noteq> b"
    then show "set (f a) \<inter> set (f b) = {}" using Cons.prems(3)[of a b] by simp
  qed
  moreover have "distinct (f c)" using Cons.prems(2)[of c] by simp
  moreover have "set (f c) \<inter> set (concat (map f cs)) = {}"
  proof -
    have "\<And>c'. c' \<in> set cs \<Longrightarrow> set (f c) \<inter> set (f c') = {}"
    proof -
      fix c' assume c': "c' \<in> set cs"
      then have "c \<noteq> c'" using Cons.prems(1) by auto
      then show "set (f c) \<inter> set (f c') = {}" using Cons.prems(3)[of c c'] c' by simp
    qed
    then show ?thesis by auto
  qed
  ultimately show ?case by simp
qed

lemma node_to_list_distinct:
  assumes f: "forest t R"
  shows "node_to_list k t n = Some xs \<Longrightarrow> distinct xs"
proof (induction k arbitrary: n xs)
  case 0
  then show ?case by simp
next
  case (Suc k)
  note nk = node_to_list_kids[OF Suc.prems]
  let ?f = "\<lambda>c. the (node_to_list k t c)"
  have kid: "\<And>c. c \<in> set (kids_of t n) \<Longrightarrow> (n, c) \<in> R"
    using forestD(7)[OF f, of n] by simp
  have sub: "\<And>c. c \<in> set (kids_of t n) \<Longrightarrow> set (?f c) = {d. (c, d) \<in> R\<^sup>*}"
    using nk(2) node_to_list_set[OF f] by fastforce
  have dis: "\<And>c. c \<in> set (kids_of t n) \<Longrightarrow> distinct (?f c)"
    using nk(2) Suc.IH by fastforce
  have "distinct (concat (map ?f (kids_of t n)))"
  proof (rule distinct_concat_map)
    show "distinct (kids_of t n)" by (rule forestD(8)[OF f])
  next
    fix c assume "c \<in> set (kids_of t n)"
    then show "distinct (?f c)" by (rule dis)
  next
    fix c c' assume "c \<in> set (kids_of t n)" "c' \<in> set (kids_of t n)" "c \<noteq> c'"
    then show "set (?f c) \<inter> set (?f c') = {}"
      using sub disjoint_siblings[OF f kid kid] by simp
  qed
  moreover have "n \<notin> set (concat (map ?f (kids_of t n)))"
    using sub child_not_above[OF f kid] by auto
  ultimately show ?case unfolding nk(1) by simp
qed

subsection \<open>Order of two names in a list\<close>

lemma precedesD:
  "precedes a b xs \<Longrightarrow> a \<in> set xs \<and> b \<in> set xs \<and> a \<noteq> b"
  unfolding precedes_def by (auto dest: set_takeWhileD)

lemma precedes_Cons: "x \<noteq> b \<Longrightarrow> precedes a b xs \<Longrightarrow> precedes a b (x # xs)"
  by (simp add: precedes_def)

lemma precedes_hd: "a \<noteq> b \<Longrightarrow> b \<in> set xs \<Longrightarrow> precedes a b (a # xs)"
  by (simp add: precedes_def)

lemma precedes_append:
  assumes "b \<notin> set A" "precedes a b xs"
  shows "precedes a b (A @ xs @ B)"
proof -
  have b: "b \<in> set xs" using assms(2) by (simp add: precedes_def)
  have "takeWhile (\<lambda>x. x \<noteq> b) (A @ xs @ B) = A @ takeWhile (\<lambda>x. x \<noteq> b) (xs @ B)"
    using assms(1) by (intro takeWhile_append2) auto
  also have "takeWhile (\<lambda>x. x \<noteq> b) (xs @ B) = takeWhile (\<lambda>x. x \<noteq> b) xs"
    using b by (intro takeWhile_append1[of b]) auto
  finally show ?thesis using assms(2) b by (simp add: precedes_def)
qed

lemma precedes_concat:
  assumes c: "c \<in> set cs"
    and other: "\<And>c'. c' \<in> set cs \<Longrightarrow> c' \<noteq> c \<Longrightarrow> b \<notin> set (f c')"
    and p: "precedes a b (f c)"
  shows "precedes a b (concat (map f cs))"
proof -
  from c obtain ys zs where cs: "cs = ys @ c # zs" and ys: "c \<notin> set ys"
    by (meson split_list_first)
  have "b \<notin> set (concat (map f ys))"
    using other ys unfolding cs by auto
  then have "precedes a b (concat (map f ys) @ f c @ concat (map f zs))"
    using p by (rule precedes_append)
  then show ?thesis unfolding cs by simp
qed

lemma precedes_concat_heads:
  assumes p: "precedes a b cs"
    and own: "\<And>c. c \<in> set cs \<Longrightarrow> c \<in> set (f c)"
    and other: "\<And>c. c \<in> set cs \<Longrightarrow> c \<noteq> b \<Longrightarrow> b \<notin> set (f c)"
  shows "precedes a b (concat (map f cs))"
proof -
  from p have "b \<in> set cs" by (simp add: precedes_def)
  then obtain ys zs where cs: "cs = ys @ b # zs" and ys: "b \<notin> set ys"
    by (meson split_list_first)
  have "takeWhile (\<lambda>x. x \<noteq> b) cs = ys"
    unfolding cs using ys by (induction ys) auto
  then have a: "a \<in> set ys" using p by (simp add: precedes_def)
  have nb: "b \<notin> set (concat (map f ys))"
    using other ys unfolding cs by auto
  have ain: "a \<in> set (concat (map f ys))"
    using a own[of a] unfolding cs by auto
  have bin: "b \<in> set (f b)" using own[of b] unfolding cs by simp
  have "takeWhile (\<lambda>x. x \<noteq> b) (concat (map f ys) @ f b @ concat (map f zs))
        = concat (map f ys) @ takeWhile (\<lambda>x. x \<noteq> b) (f b @ concat (map f zs))"
    using nb by (intro takeWhile_append2) auto
  then show ?thesis
    unfolding cs precedes_def using ain bin by simp
qed

lemma precedes_filter:
  "P a \<Longrightarrow> P b \<Longrightarrow> precedes a b xs \<Longrightarrow> precedes a b (filter P xs)"
proof (induction xs)
  case Nil
  then show ?case by (simp add: precedes_def)
next
  case (Cons x xs)
  show ?case
  proof (cases "x = b")
    case True
    then show ?thesis using Cons.prems(3) by (simp add: precedes_def)
  next
    case False
    show ?thesis
    proof (cases "a = x")
      case True
      then show ?thesis using Cons.prems False by (auto simp: precedes_def)
    next
      case ax: False
      then have "precedes a b xs" using Cons.prems(3) False by (auto simp: precedes_def)
      then have "precedes a b (filter P xs)" using Cons.IH Cons.prems(1,2) by simp
      then show ?thesis using False by (simp add: precedes_def)
    qed
  qed
qed

subsection \<open>Order of the names in the traversal\<close>

lemma node_to_list_ancestor:
  assumes f: "forest t R"
  shows "node_to_list k t n = Some xs \<Longrightarrow> a \<in> set xs \<Longrightarrow> (a, b) \<in> R\<^sup>+ \<Longrightarrow> precedes a b xs"
proof (induction k arbitrary: n xs)
  case 0
  then show ?case by simp
next
  case (Suc k)
  note nk = node_to_list_kids[OF Suc.prems(1)]
  let ?f = "\<lambda>c. the (node_to_list k t c)"
  have kid: "\<And>c. c \<in> set (kids_of t n) \<Longrightarrow> (n, c) \<in> R"
    using forestD(7)[OF f, of n] by simp
  have sub: "\<And>c. c \<in> set (kids_of t n) \<Longrightarrow> set (?f c) = {d. (c, d) \<in> R\<^sup>*}"
    using nk(2) node_to_list_set[OF f] by fastforce
  have na: "(n, a) \<in> R\<^sup>*"
    using node_to_list_set[OF f Suc.prems(1)] Suc.prems(2) by simp
  then have nb: "(n, b) \<in> R\<^sup>+" using Suc.prems(3) by simp
  then have bn: "n \<noteq> b" using forestD(2)[OF f] by (auto simp: acyclic_def)
  have bxs: "b \<in> set xs"
    using node_to_list_set[OF f Suc.prems(1)] nb by (simp add: trancl_into_rtrancl)
  show ?case
  proof (cases "a = n")
    case True
    then show ?thesis using bn bxs unfolding nk(1) by (simp add: precedes_hd)
  next
    case False
    then obtain c where c: "c \<in> set (kids_of t n)" and ac: "a \<in> set (?f c)"
      using Suc.prems(2) unfolding nk(1) by auto
    from nk(2)[OF c] obtain ys where ys: "node_to_list k t c = Some ys" by blast
    have pc: "precedes a b (?f c)"
      using Suc.IH[OF ys _ Suc.prems(3)] ac ys by simp
    then have bc: "(c, b) \<in> R\<^sup>*" using sub[OF c] precedesD[OF pc] by simp
    have "precedes a b (concat (map ?f (kids_of t n)))"
    proof (rule precedes_concat[where c = c and f = "?f"])
      show "c \<in> set (kids_of t n)" by (rule c)
    next
      show "precedes a b (?f c)" by (rule pc)
    next
      fix c' assume c': "c' \<in> set (kids_of t n)" "c' \<noteq> c"
      show "b \<notin> set (?f c')"
        using disjoint_siblings[OF f kid[OF c'(1)] kid[OF c] c'(2)] bc sub[OF c'(1)] by auto
    qed
    then show ?thesis unfolding nk(1) using bn by (simp add: precedes_Cons)
  qed
qed

lemma node_to_list_siblings:
  assumes f: "forest t R"
  shows "node_to_list k t n = Some xs \<Longrightarrow> p \<in> set xs \<Longrightarrow> precedes a b (kids_of t p) \<Longrightarrow>
         precedes a b xs"
proof (induction k arbitrary: n xs)
  case 0
  then show ?case by simp
next
  case (Suc k)
  note nk = node_to_list_kids[OF Suc.prems(1)]
  let ?f = "\<lambda>c. the (node_to_list k t c)"
  have kid: "\<And>c. c \<in> set (kids_of t n) \<Longrightarrow> (n, c) \<in> R"
    using forestD(7)[OF f, of n] by simp
  have sub: "\<And>c. c \<in> set (kids_of t n) \<Longrightarrow> set (?f c) = {d. (c, d) \<in> R\<^sup>*}"
    using nk(2) node_to_list_set[OF f] by fastforce
  show ?case
  proof (cases "p = n")
    case True
    have pk: "precedes a b (kids_of t n)" using Suc.prems(3) True by simp
    have b: "b \<in> set (kids_of t n)" using precedesD[OF pk] by simp
    have bn: "n \<noteq> b" using child_not_above[OF f kid[OF b]] by auto
    have "precedes a b (concat (map ?f (kids_of t n)))"
    proof (rule precedes_concat_heads[where f = "?f"])
      show "precedes a b (kids_of t n)" by (rule pk)
    next
      fix c assume "c \<in> set (kids_of t n)"
      then show "c \<in> set (?f c)" using sub by simp
    next
      fix c assume c: "c \<in> set (kids_of t n)" "c \<noteq> b"
      show "b \<notin> set (?f c)"
        using no_sibling_path[OF f kid[OF c(1)] kid[OF b] c(2)] sub[OF c(1)] by simp
    qed
    then show ?thesis unfolding nk(1) using bn by (simp add: precedes_Cons)
  next
    case False
    then obtain c where c: "c \<in> set (kids_of t n)" and pc: "p \<in> set (?f c)"
      using Suc.prems(2) unfolding nk(1) by auto
    from nk(2)[OF c] obtain ys where ys: "node_to_list k t c = Some ys" by blast
    have pr: "precedes a b (?f c)"
      using Suc.IH[OF ys _ Suc.prems(3)] pc ys by simp
    then have bc: "(c, b) \<in> R\<^sup>*" using sub[OF c] precedesD[OF pr] by simp
    have bn: "n \<noteq> b" using child_not_above[OF f kid[OF c]] bc by auto
    have "precedes a b (concat (map ?f (kids_of t n)))"
    proof (rule precedes_concat[where c = c and f = "?f"])
      show "c \<in> set (kids_of t n)" by (rule c)
    next
      show "precedes a b (?f c)" by (rule pr)
    next
      fix c' assume c': "c' \<in> set (kids_of t n)" "c' \<noteq> c"
      show "b \<notin> set (?f c')"
        using disjoint_siblings[OF f kid[OF c'(1)] kid[OF c] c'(2)] bc sub[OF c'(1)] by auto
    qed
    then show ?thesis unfolding nk(1) using bn by (simp add: precedes_Cons)
  qed
qed

subsection \<open>The traversal of the whole tree\<close>

lemma roots_filter:
  assumes "distinct (map fst t)"
  shows "roots t = filter (\<lambda>k. parent_of t k = None) (map fst t)"
proof -
  have "filter (\<lambda>(k, nd). parent nd = None) t = filter ((\<lambda>k. parent_of t k = None) \<circ> fst) t"
  proof (rule filter_cong[OF refl])
    fix x assume x: "x \<in> set t"
    obtain k nd where kn: "x = (k, nd)" by (cases x)
    have "map_of t k = Some nd" using assms x kn by simp
    then show "(case x of (k, nd) \<Rightarrow> parent nd = None) = ((\<lambda>k. parent_of t k = None) \<circ> fst) x"
      by (simp add: kn parent_of_def node_of_def)
  qed
  then show ?thesis by (simp add: roots_def filter_map)
qed

lemma to_list_eq:
  "to_list k t =
     (if \<forall>r \<in> set (roots t). node_to_list k t r \<noteq> None
      then Some (concat (map (\<lambda>r. the (node_to_list k t r)) (roots t)))
      else None)"
  by (simp add: to_list_def Let_def None_in_image comp_def del: not_None_eq)

lemma to_list_fuel:
  assumes all: "\<forall>r \<in> set (roots t). node_to_list K t r \<noteq> None" and k: "K \<le> k"
  shows "to_list k t = Some (concat (map (\<lambda>r. the (node_to_list K t r)) (roots t)))"
proof -
  have eq: "\<And>r. r \<in> set (roots t) \<Longrightarrow> node_to_list k t r = node_to_list K t r"
    using all node_to_list_mono[OF k] by fastforce
  have A: "\<forall>r \<in> set (roots t). node_to_list k t r \<noteq> None"
    using all eq by simp
  have B: "map (\<lambda>r. the (node_to_list k t r)) (roots t)
         = map (\<lambda>r. the (node_to_list K t r)) (roots t)"
    using eq by (intro map_cong) simp_all
  show ?thesis unfolding to_list_eq[of k] B using A by (simp del: not_None_eq)
qed

lemma to_list_mono:
  assumes "to_list k t = Some out" "k \<le> k'"
  shows "to_list k' t = Some out"
proof -
  have all: "\<forall>r \<in> set (roots t). node_to_list k t r \<noteq> None"
    and out: "out = concat (map (\<lambda>r. the (node_to_list k t r)) (roots t))"
    using assms(1) by (auto simp: to_list_eq simp del: not_None_eq split: if_splits)
  show ?thesis using to_list_fuel[OF all assms(2)] out by simp
qed

lemma root_ancestor:
  assumes f: "forest t R"
  shows "\<exists>r. parent_of t r = None \<and> (r, n) \<in> R\<^sup>*"
proof -
  have "wf R" using forestD(1,2)[OF f] by (rule finite_acyclic_wf)
  then show ?thesis
  proof (induction n rule: wf_induct_rule)
    case (less n)
    show ?case
    proof (cases "parent_of t n")
      case None
      then show ?thesis by blast
    next
      case (Some p)
      then have pn: "(p, n) \<in> R" using forestD(6)[OF f] by simp
      from less[OF pn] obtain r where "parent_of t r = None" "(r, p) \<in> R\<^sup>*" by blast
      then show ?thesis using pn by (meson rtrancl.rtrancl_into_rtrancl)
    qed
  qed
qed

lemma forest_to_list:
  assumes f: "forest t R"
  shows "\<exists>K out. (\<forall>k \<ge> K. to_list k t = Some out) \<and> distinct out \<and>
           set out = set (map fst t) \<and>
           (\<forall>a b. (a, b) \<in> R\<^sup>+ \<longrightarrow> precedes a b out) \<and>
           (\<forall>p a b. precedes a b (kids_of t p) \<longrightarrow> precedes a b out)"
proof -
  have "\<And>r. r \<in> set (roots t) \<Longrightarrow> \<exists>k. node_to_list k t r \<noteq> None"
    using node_to_list_terminates[OF f] by blast
  then obtain K where K: "\<forall>r \<in> set (roots t). node_to_list K t r \<noteq> None"
    using uniform_fuel by blast
  let ?f = "\<lambda>r. the (node_to_list K t r)"
  let ?out = "concat (map ?f (roots t))"
  have rf: "roots t = filter (\<lambda>k. parent_of t k = None) (map fst t)"
    by (rule roots_filter[OF forestD(3)[OF f]])
  have root: "\<And>r. r \<in> set (roots t) \<Longrightarrow> parent_of t r = None"
    unfolding rf by simp
  have some: "\<And>r. r \<in> set (roots t) \<Longrightarrow> node_to_list K t r = Some (?f r)"
    using K by fastforce
  have sub: "\<And>r. r \<in> set (roots t) \<Longrightarrow> set (?f r) = {d. (r, d) \<in> R\<^sup>*}"
    using some node_to_list_set[OF f] by blast
  have keys: "\<And>r d. r \<in> set (map fst t) \<Longrightarrow> (r, d) \<in> R\<^sup>* \<Longrightarrow> d \<in> set (map fst t)"
  proof -
    fix r d assume r: "r \<in> set (map fst t)" and "(r, d) \<in> R\<^sup>*"
    from this(2) show "d \<in> set (map fst t)"
      by (cases rule: rtranclE) (use r forestD(5)[OF f] in auto)
  qed
  have fuel: "\<forall>k \<ge> K. to_list k t = Some ?out"
    using to_list_fuel[OF K] by blast
  have dist: "distinct ?out"
  proof (rule distinct_concat_map)
    show "distinct (roots t)" unfolding rf using forestD(3)[OF f] by simp
  next
    fix r assume "r \<in> set (roots t)"
    then show "distinct (?f r)" using some node_to_list_distinct[OF f] by blast
  next
    fix r r' assume "r \<in> set (roots t)" "r' \<in> set (roots t)" "r \<noteq> r'"
    then show "set (?f r) \<inter> set (?f r') = {}"
      using sub disjoint_roots[OF f root root] by simp
  qed
  have set_out: "set ?out = set (map fst t)"
  proof
    show "set ?out \<subseteq> set (map fst t)"
    proof
      fix d assume "d \<in> set ?out"
      then obtain r where r: "r \<in> set (roots t)" and d: "d \<in> set (?f r)" by auto
      have "r \<in> set (map fst t)" using r unfolding rf by simp
      then show "d \<in> set (map fst t)" using keys d sub[OF r] by blast
    qed
  next
    show "set (map fst t) \<subseteq> set ?out"
    proof
      fix n assume n: "n \<in> set (map fst t)"
      from root_ancestor[OF f, of n] obtain r where r: "parent_of t r = None" "(r, n) \<in> R\<^sup>*"
        by blast
      have "r \<in> set (map fst t)"
        using r(2) by (cases rule: converse_rtranclE) (use n forestD(4)[OF f] in auto)
      then have rr: "r \<in> set (roots t)" using r(1) unfolding rf by simp
      then have "n \<in> set (?f r)" using sub r(2) by simp
      then show "n \<in> set ?out" using rr by auto
    qed
  qed
  have lift: "\<And>a b r. r \<in> set (roots t) \<Longrightarrow> precedes a b (?f r) \<Longrightarrow> precedes a b ?out"
  proof -
    fix a b r assume r: "r \<in> set (roots t)" and p: "precedes a b (?f r)"
    have br: "(r, b) \<in> R\<^sup>*" using precedesD[OF p] sub[OF r] by simp
    show "precedes a b ?out"
    proof (rule precedes_concat[where c = r and f = "?f"])
      show "r \<in> set (roots t)" by (rule r)
    next
      show "precedes a b (?f r)" by (rule p)
    next
      fix r' assume r': "r' \<in> set (roots t)" "r' \<noteq> r"
      show "b \<notin> set (?f r')"
        using disjoint_roots[OF f root[OF r'(1)] root[OF r] r'(2)] br sub[OF r'(1)] by auto
    qed
  qed
  have anc: "\<forall>a b. (a, b) \<in> R\<^sup>+ \<longrightarrow> precedes a b ?out"
  proof (intro allI impI)
    fix a b assume ab: "(a, b) \<in> R\<^sup>+"
    then have "a \<in> set (map fst t)"
      by (cases rule: converse_tranclE) (use forestD(4)[OF f] in auto)
    then have "a \<in> set ?out" using set_out by simp
    then obtain r where r: "r \<in> set (roots t)" and a: "a \<in> set (?f r)" by auto
    have "precedes a b (?f r)"
      by (rule node_to_list_ancestor[OF f some[OF r] a ab])
    then show "precedes a b ?out" by (rule lift[OF r])
  qed
  have sib: "\<forall>p a b. precedes a b (kids_of t p) \<longrightarrow> precedes a b ?out"
  proof (intro allI impI)
    fix p a b assume pk: "precedes a b (kids_of t p)"
    then have "(p, a) \<in> R" using precedesD[OF pk] forestD(7)[OF f, of p] by simp
    then have "p \<in> set (map fst t)" using forestD(4)[OF f] by blast
    then have "p \<in> set ?out" using set_out by simp
    then obtain r where r: "r \<in> set (roots t)" and p: "p \<in> set (?f r)" by auto
    have "precedes a b (?f r)"
      by (rule node_to_list_siblings[OF f some[OF r] p pk])
    then show "precedes a b ?out" by (rule lift[OF r])
  qed
  show ?thesis
    using fuel dist set_out anc sib by blast
qed

lemma finite_parent_rel: "finite (parent_rel items)"
proof -
  have "parent_rel items \<subseteq> (\<lambda>(n, po). (the po, n)) ` set items"
    by (force simp: parent_rel_def)
  then show ?thesis by (rule finite_subset) simp
qed

lemma forest_push_all:
  assumes d: "distinct (map fst items)" and a: "acyclic (parent_rel items)"
  shows "forest (push_all items) (parent_rel items)"
  unfolding forest_def
proof (intro conjI allI impI)
  show "finite (parent_rel items)" by (rule finite_parent_rel)
  show "acyclic (parent_rel items)" by (rule a)
  show "distinct (map fst (push_all items))" by (rule distinct_keys_push_all)
next
  fix p n assume "(p, n) \<in> parent_rel items"
  then show "p \<in> set (map fst (push_all items))" "n \<in> set (map fst (push_all items))"
    unfolding keys_push_all by (force simp: parent_rel_def mentioned_def)+
next
  fix n p show "(parent_of (push_all items) n = Some p) = ((p, n) \<in> parent_rel items)"
    by (rule par_push_all[OF d])
next
  fix p show "set (kids_of (push_all items) p) = {n. (p, n) \<in> parent_rel items}"
    unfolding kids_push_all[OF d] using parent_rel_names by auto
next
  fix p show "distinct (kids_of (push_all items) p)"
    unfolding kids_push_all[OF d] using d by simp
qed

text \<open>A relation that only links a name to a longer name has no cycle.\<close>

lemma acyclic_longer_names:
  assumes "\<And>p n. (p, n) \<in> R \<Longrightarrow> length p < length n"
  shows "acyclic (R :: (string \<times> string) set)"
proof -
  have "R \<subseteq> measure length" using assms by auto
  then have "wf R" by (rule wf_subset[OF wf_measure])
  then show ?thesis by (rule wf_acyclic)
qed

text \<open>
  C1. For items whose names are pairwise distinct and whose parent links have no cycle,
  pushing the items in order into an empty tree and calling \<open>to_list\<close> returns a
  list (the traversal ends: every bound on the recursion depth from some bound on gives
  the same list). The list contains every name that occurs in the items, as a name or as a
  non-empty parent name, exactly once. Every name stands before all the names below it in
  the hierarchy, hence after its parent and all its ancestors, and the children of a
  common parent stand in the order of their items. A child may be pushed before its
  parent. The result is a function of the sequence of items, so the same sequence gives
  the same list.
\<close>

theorem to_list_hierarchical_order:
  assumes "distinct (map fst items)" and "acyclic (parent_rel items)"
  shows "\<exists>K out. (\<forall>k \<ge> K. to_list k (push_all items) = Some out) \<and>
           distinct out \<and> set out = mentioned items \<and>
           (\<forall>p n. (p, n) \<in> (parent_rel items)\<^sup>+ \<longrightarrow> precedes p n out) \<and>
           (\<forall>p a b. (p, a) \<in> parent_rel items \<and> (p, b) \<in> parent_rel items \<and>
                     precedes a b (map fst items) \<longrightarrow> precedes a b out)"
proof -
  have f: "forest (push_all items) (parent_rel items)"
    by (rule forest_push_all[OF assms])
  from forest_to_list[OF f] obtain K out where
    fuel: "\<forall>k \<ge> K. to_list k (push_all items) = Some out" and
    dist: "distinct out" and
    keys: "set out = set (map fst (push_all items))" and
    anc: "\<forall>a b. (a, b) \<in> (parent_rel items)\<^sup>+ \<longrightarrow> precedes a b out" and
    sib: "\<forall>p a b. precedes a b (kids_of (push_all items) p) \<longrightarrow> precedes a b out"
    by blast
  have sib': "\<forall>p a b. (p, a) \<in> parent_rel items \<and> (p, b) \<in> parent_rel items \<and>
                     precedes a b (map fst items) \<longrightarrow> precedes a b out"
  proof (intro allI impI)
    fix p a b
    assume h: "(p, a) \<in> parent_rel items \<and> (p, b) \<in> parent_rel items \<and>
               precedes a b (map fst items)"
    have "precedes a b (filter (\<lambda>n. (p, n) \<in> parent_rel items) (map fst items))"
      by (rule precedes_filter) (use h in simp_all)
    then have "precedes a b (kids_of (push_all items) p)"
      by (simp add: kids_push_all[OF assms(1)])
    then show "precedes a b out" using sib by blast
  qed
  have "set out = mentioned items" using keys by (simp only: keys_push_all)
  then show ?thesis using fuel dist anc sib' by blast
qed

text \<open>
  The child Cube.001 is pushed before its parent Cube: the list starts with Cube, and the
  two children follow in the order of their items.
\<close>

theorem forward_reference_scenario:
  "distinct (map fst forward_items) \<and> acyclic (parent_rel forward_items) \<and>
   to_list 2 (push_all forward_items) = Some [''Cube'', ''Cube.001'', ''Cube.002''] \<and>
   precedes ''Cube'' ''Cube.001'' (the (to_list 2 (push_all forward_items))) \<and>
   precedes ''Cube.001'' ''Cube.002'' (the (to_list 2 (push_all forward_items)))"
proof -
  have d: "distinct (map fst forward_items)" by (simp add: forward_items_def)
  have a: "acyclic (parent_rel forward_items)"
    by (rule acyclic_longer_names) (auto simp: parent_rel_def forward_items_def)
  have run: "to_list 2 (push_all forward_items) = Some [''Cube'', ''Cube.001'', ''Cube.002'']"
    by code_simp
  from to_list_hierarchical_order[OF d a] obtain K out where
    fuel: "\<forall>k \<ge> K. to_list k (push_all forward_items) = Some out" and
    anc: "\<forall>p n. (p, n) \<in> (parent_rel forward_items)\<^sup>+ \<longrightarrow> precedes p n out" and
    sib: "\<forall>p a b. (p, a) \<in> parent_rel forward_items \<and> (p, b) \<in> parent_rel forward_items \<and>
                   precedes a b (map fst forward_items) \<longrightarrow> precedes a b out"
    by blast
  have "to_list (max K 2) (push_all forward_items) = Some out" using fuel by simp
  moreover have "to_list (max K 2) (push_all forward_items)
                 = Some [''Cube'', ''Cube.001'', ''Cube.002'']"
    by (rule to_list_mono[OF run]) simp
  ultimately have out: "out = [''Cube'', ''Cube.001'', ''Cube.002'']" by simp
  have "(''Cube'', ''Cube.001'') \<in> parent_rel forward_items"
    by (simp add: parent_rel_def forward_items_def)
  then have p1: "precedes ''Cube'' ''Cube.001'' out" using anc by blast
  have "(''Cube'', ''Cube.001'') \<in> parent_rel forward_items \<and>
        (''Cube'', ''Cube.002'') \<in> parent_rel forward_items \<and>
        precedes ''Cube.001'' ''Cube.002'' (map fst forward_items)"
    by (simp add: parent_rel_def forward_items_def precedes_def)
  then have p2: "precedes ''Cube.001'' ''Cube.002'' out" using sib by blast
  show ?thesis using d a run p1 p2 unfolding out by simp
qed

text \<open>
  The claim as stated fails when a name occurs twice: \<open>push\<close> appends the name to the
  children of its parent each time, and the list names it twice, so it is not a
  permutation of the distinct names.
\<close>

theorem duplicate_name_listed_twice:
  "acyclic (parent_rel duplicate_items) \<and>
   to_list 2 (push_all duplicate_items) = Some [''Cube'', ''Cube.001'', ''Cube.001''] \<and>
   \<not> distinct (the (to_list 2 (push_all duplicate_items)))"
proof -
  have a: "acyclic (parent_rel duplicate_items)"
    by (rule acyclic_longer_names) (auto simp: parent_rel_def duplicate_items_def)
  have run: "to_list 2 (push_all duplicate_items) = Some [''Cube'', ''Cube.001'', ''Cube.001'']"
    by code_simp
  show ?thesis using a run by simp
qed

end
